theory Spec2Isabelle
  imports Main "HOL-Library.Word"
begin

unbundle bit_operations_syntax

section \<open>Bytes, buffers and multi-precision integers\<close>

text \<open>
  A \<^verbatim>\<open>uint8_t\<close> is an 8-bit word, a byte buffer is a list of them.  A pointer
  \<^verbatim>\<open>buf + k\<close> is the list \<open>drop k buf\<close>; reading \<open>len\<close> bytes at a pointer is
  \<open>take len\<close>.  The fixed-offset reads of the source lie inside the buffers its
  interface prescribes (16-byte keys, 20-byte scalars, 40-byte points, 92-byte
  certificates); the theorems below carry these sizes as hypotheses.  The one read whose
  offset is computed from data, in \<^verbatim>\<open>crypto_create_bus_key\<close>, goes through the
  checked \<open>buf_read\<close>.
\<close>

type_synonym u8 = "8 word"

text \<open>The value of a byte string read as a big-endian unsigned integer.\<close>

fun be_value :: "u8 list \<Rightarrow> nat" where
  "be_value [] = 0"
| "be_value (b # bs) = unat b * 256 ^ length bs + be_value bs"

text \<open>\<^verbatim>\<open>memcpy (buf + off, bs, length bs)\<close>.\<close>

definition buf_write :: "u8 list \<Rightarrow> nat \<Rightarrow> u8 list \<Rightarrow> u8 list" where
  "buf_write buf off bs = take off buf @ bs @ drop (off + length bs) buf"

datatype mem_error = Out_of_bounds int

text \<open>
  Reading \<open>len\<close> bytes at \<^verbatim>\<open>buf + off\<close> for a computed, possibly negative offset.  C
  leaves a read outside the array undefined; here it is the error branch.
\<close>

definition buf_read :: "u8 list \<Rightarrow> int \<Rightarrow> nat \<Rightarrow> mem_error + u8 list" where
  "buf_read buf off len =
     (if 0 \<le> off \<and> nat off + len \<le> length buf
      then Inr (take len (drop (nat off) buf))
      else Inl (Out_of_bounds off))"

text \<open>
  libgcrypt's \<^verbatim>\<open>GCRYMPI_FMT_USG\<close>: an unsigned big-endian integer.  Scanning reads
  the given number of bytes.  Printing produces the shortest encoding (no leading zero
  byte, nothing at all for the value 0), stores it at the start of the buffer and
  reports its length; when the buffer is too short nothing is stored and an error code
  is returned.
\<close>

type_synonym gcry_error = nat

definition GPG_ERR_TOO_SHORT :: gcry_error where
  "GPG_ERR_TOO_SHORT = 66"

fun mpi_bytes :: "nat \<Rightarrow> u8 list" where
  "mpi_bytes n = (if n = 0 then [] else mpi_bytes (n div 256) @ [of_nat (n mod 256)])"

declare mpi_bytes.simps [simp del]

definition gcry_mpi_scan :: "u8 list \<Rightarrow> nat \<Rightarrow> nat" where
  "gcry_mpi_scan buffer buflen = be_value (take buflen buffer)"

text \<open>
  \<open>gcry_mpi_print buffer off buflen nwritten a\<close> prints into \<^verbatim>\<open>buffer + off\<close>, a
  window of \<open>buflen\<close> bytes, and returns the error code, the buffer and the new value of
  the caller's \<^verbatim>\<open>nwritten\<close>.
\<close>

definition gcry_mpi_print ::
  "u8 list \<Rightarrow> nat \<Rightarrow> nat \<Rightarrow> nat \<Rightarrow> nat \<Rightarrow> gcry_error \<times> u8 list \<times> nat" where
  "gcry_mpi_print buffer off buflen nwritten a =
     (let n = length (mpi_bytes a)
      in if n > buflen then (GPG_ERR_TOO_SHORT, buffer, nwritten)
         else (0, buf_write buffer off (mpi_bytes a), n))"

section \<open>The libgcrypt interface\<close>

text \<open>
  The S-expressions the source builds.  A key carries its tag
  (\<^verbatim>\<open>private-key\<close> or \<^verbatim>\<open>public-key\<close>), the curve constants of the format string
  (p, a, b, the uncompressed base point, n), the uncompressed point \<open>q\<close>, and the scalar
  \<open>d\<close> when there is one.
\<close>

datatype sexp =
    Sexp_key string "nat \<times> nat \<times> nat \<times> nat \<times> nat" "u8 list" "nat option"
  | Sexp_data nat
  | Sexp_sig_val nat nat

text \<open>
  AES-128 in ECB mode on one block, SHA-1, S-expression construction and ECDSA are
  libgcrypt's.  They are parameters of the model: \<open>cipher_encrypt key block\<close>,
  \<open>cipher_decrypt key block\<close>, \<open>md_hash_buffer data\<close>; \<open>sexp_build\<close> returns the error
  code of building the given expression (0 for success); \<open>pk_sign data key\<close> returns an
  error code and the pair (r, s); \<open>pk_verify sig data key\<close> returns 0 exactly when the
  signature is accepted.
\<close>

record gcry =
  cipher_encrypt :: "u8 list \<Rightarrow> u8 list \<Rightarrow> u8 list"
  cipher_decrypt :: "u8 list \<Rightarrow> u8 list \<Rightarrow> u8 list"
  md_hash_buffer :: "u8 list \<Rightarrow> u8 list"
  sexp_build :: "sexp \<Rightarrow> gcry_error"
  pk_sign :: "sexp \<Rightarrow> sexp \<Rightarrow> gcry_error \<times> nat \<times> nat"
  pk_verify :: "sexp \<Rightarrow> sexp \<Rightarrow> sexp \<Rightarrow> gcry_error"

text \<open>The calls made to libgcrypt's cryptographic operations, in order.\<close>

datatype gcry_call =
    Call_cipher_encrypt "u8 list" "u8 list"
  | Call_cipher_decrypt "u8 list" "u8 list"
  | Call_md_hash_buffer "u8 list"
  | Call_sexp_build sexp
  | Call_pk_sign sexp sexp
  | Call_pk_verify sexp sexp sexp

section \<open>AES-G3\<close>

definition aesg3_seed :: "u8 list" where
  "aesg3_seed = [0x7B, 0x10, 0x3C, 0x5D, 0xCB, 0x08, 0xC4, 0xE5,
                 0x1A, 0x27, 0xB0, 0x17, 0x99, 0x05, 0x3B, 0xD9]"

text \<open>\<^verbatim>\<open>for (a = 0; a < 16; a++) dst[a] ^= src[a];\<close>\<close>

function xor_loop :: "nat \<Rightarrow> u8 list \<Rightarrow> u8 list \<Rightarrow> u8 list" where
  "xor_loop a dst src =
     (if a < 16 then xor_loop (a + 1) (dst[a := dst ! a XOR src ! a]) src else dst)"
  by pat_completeness auto
termination
  by (relation "measure (\<lambda>(a, dst, src). 16 - a)") auto

declare xor_loop.simps [simp del]

definition aesg3 :: "gcry \<Rightarrow> u8 list \<Rightarrow> u8 list \<Rightarrow> u8 \<Rightarrow> u8 list \<times> gcry_call list" where
  "aesg3 B src_key dst_key inc =
     (let seed = aesg3_seed[15 := aesg3_seed ! 15 + inc];
          key = take 16 src_key;
          dst1 = buf_write dst_key 0 (take 16 (cipher_decrypt B key seed))
      in (xor_loop 0 dst1 seed, [Call_cipher_decrypt key seed]))"

text \<open>
  The three output pointers may be \<^verbatim>\<open>NULL\<close>: an output is \<open>None\<close> for a null pointer
  and \<open>Some buf\<close> for a buffer with contents \<open>buf\<close>.
\<close>

definition aesg3_opt ::
  "gcry \<Rightarrow> u8 list \<Rightarrow> u8 list option \<Rightarrow> u8 \<Rightarrow> u8 list option \<times> gcry_call list" where
  "aesg3_opt B D out inc =
     (case out of None \<Rightarrow> (None, [])
      | Some buf \<Rightarrow> (Some (fst (aesg3 B D buf inc)), snd (aesg3 B D buf inc)))"

definition crypto_aesg3 ::
  "gcry \<Rightarrow> u8 list \<Rightarrow> u8 list option \<Rightarrow> u8 list option \<Rightarrow> u8 list option
   \<Rightarrow> (u8 list option \<times> u8 list option \<times> u8 list option) \<times> gcry_call list" where
  "crypto_aesg3 B D lsubk rsubk pk =
     (let l = aesg3_opt B D lsubk 0;
          p = aesg3_opt B D pk 1;
          r = aesg3_opt B D rsubk 2
      in ((fst l, fst r, fst p), snd l @ snd p @ snd r))"

section \<open>AES CMAC\<close>

text \<open>
  \<^verbatim>\<open>for (i = 15; i >= 0; i--) { dst[i] = (src[i] << 1) | overflow; overflow = src[i] >> 7; }\<close>
  The first argument counts the iterations left: \<open>Suc i\<close> is the iteration with index
  \<open>i\<close>.
\<close>

fun shl_128_loop :: "nat \<Rightarrow> u8 list \<Rightarrow> u8 list \<Rightarrow> u8 \<Rightarrow> u8 list" where
  "shl_128_loop 0 dst src overflow = dst"
| "shl_128_loop (Suc i) dst src overflow =
     shl_128_loop i (dst[i := push_bit 1 (src ! i) OR overflow]) src (drop_bit 7 (src ! i))"

definition shl_128 :: "u8 list \<Rightarrow> u8 list \<Rightarrow> u8 list" where
  "shl_128 dst src = shl_128_loop 16 dst src 0"

text \<open>
  The local arrays \<^verbatim>\<open>k1\<close> and \<^verbatim>\<open>k2\<close> of the caller are uninitialised; \<open>shl_128\<close>
  overwrites all 16 bytes (lemma \<open>shl_128_eq_shl_bytes\<close>), so they start as zeros here.
  \<^verbatim>\<open>gcry_cipher_encrypt (h, key, 16, NULL, 0)\<close> encrypts \<^verbatim>\<open>key\<close> in place.
\<close>

definition cmac_key ::
  "gcry \<Rightarrow> u8 list \<Rightarrow> u8 list \<Rightarrow> u8 list \<Rightarrow> (u8 list \<times> u8 list) \<times> gcry_call list" where
  "cmac_key B aes_key k1 k2 =
     (let key0 = replicate 16 0;
          ak = take 16 aes_key;
          key = buf_write key0 0 (take 16 (cipher_encrypt B ak key0));
          k1a = shl_128 k1 key;
          k1b = (if key ! 0 AND 0x80 \<noteq> 0 then k1a[15 := k1a ! 15 XOR 0x87] else k1a);
          k2a = shl_128 k2 k1b;
          k2b = (if k1b ! 0 AND 0x80 \<noteq> 0 then k2a[15 := k2a ! 15 XOR 0x87] else k2a)
      in ((k1b, k2b), [Call_cipher_encrypt ak key0]))"

definition crypto_aes_cmac_16 ::
  "gcry \<Rightarrow> u8 list \<Rightarrow> u8 list \<Rightarrow> u8 list \<Rightarrow> u8 list \<times> gcry_call list" where
  "crypto_aes_cmac_16 B data aes_key cmac =
     (let ks = cmac_key B aes_key (replicate 16 0) (replicate 16 0);
          k1 = fst (fst ks);
          cmac1 = buf_write cmac 0 (take 16 data);
          cmac2 = xor_loop 0 cmac1 k1;
          ak = take 16 aes_key;
          blk = take 16 cmac2;
          cmac3 = buf_write cmac2 0 (take 16 (cipher_encrypt B ak blk))
      in (cmac3, snd ks @ [Call_cipher_encrypt ak blk]))"

section \<open>S-expressions for keys, digests and signatures\<close>

text \<open>The curve constants of the key format string (\<^verbatim>\<open>AACS_EC_p\<close> and so on).\<close>

definition AACS_EC_p :: nat where
  "AACS_EC_p = 0x9DC9D81355ECCEB560BDB09EF9EAE7C479A7D7DF"

definition AACS_EC_a :: nat where
  "AACS_EC_a = 0x9DC9D81355ECCEB560BDB09EF9EAE7C479A7D7DC"

definition AACS_EC_b :: nat where
  "AACS_EC_b = 0x402DAD3EC1CBCD165248D68E1245E0C4DAACB1D8"

definition AACS_EC_n :: nat where
  "AACS_EC_n = 0x9DC9D81355ECCEB560BDC44F54817B2C7F5AB017"

definition AACS_EC_G_x :: nat where
  "AACS_EC_G_x = 0x2E64FC22578351E6F4CCA7EB81D0A4BDC54CCEC6"

definition AACS_EC_G_y :: nat where
  "AACS_EC_G_y = 0x0914A25DD05442889DB455C7F23C9A0707F5CBB9"

text \<open>\<^verbatim>\<open>#04\<close> followed by the digits of \<open>G_x\<close> and \<open>G_y\<close>, as one number.\<close>

definition AACS_EC_g :: nat where
  "AACS_EC_g = (4 * 2 ^ 160 + AACS_EC_G_x) * 2 ^ 160 + AACS_EC_G_y"

text \<open>
  \<^verbatim>\<open>GCRY_VERIFY (msg, op)\<close> is \<^verbatim>\<open>if ((err = (op))) goto error\<close>; the builders return
  the error code of \<^verbatim>\<open>gcry_sexp_build\<close>, the expression handed to it (which the caller
  holds only when the code is 0) and the calls made.  A null \<^verbatim>\<open>priv_key\<close> is \<open>None\<close>.
\<close>

definition aacs_sexp_key ::
  "gcry \<Rightarrow> u8 list \<Rightarrow> u8 list \<Rightarrow> u8 list option \<Rightarrow> gcry_error \<times> sexp \<times> gcry_call list" where
  "aacs_sexp_key B q_x q_y priv_key =
     (let Q = [0x04] @ take 20 q_x @ take 20 q_y;
          mpi_d = (case priv_key of None \<Rightarrow> None | Some k \<Rightarrow> Some (gcry_mpi_scan k 20));
          key = Sexp_key (if mpi_d \<noteq> None then ''private-key'' else ''public-key'')
                  (AACS_EC_p, AACS_EC_a, AACS_EC_b, AACS_EC_g, AACS_EC_n) Q mpi_d
      in (sexp_build B key, key, [Call_sexp_build key]))"

definition aacs_sexp_sha1 ::
  "gcry \<Rightarrow> u8 list \<Rightarrow> nat \<Rightarrow> gcry_error \<times> sexp \<times> gcry_call list" where
  "aacs_sexp_sha1 B block len =
     (let blk = take len block;
          md = buf_write (replicate 20 0) 0 (take 20 (md_hash_buffer B blk));
          mpi_md = gcry_mpi_scan md 20;
          sexp_data = Sexp_data mpi_md
      in (sexp_build B sexp_data, sexp_data,
          [Call_md_hash_buffer blk, Call_sexp_build sexp_data]))"

definition aacs_sexp_signature ::
  "gcry \<Rightarrow> u8 list \<Rightarrow> gcry_error \<times> sexp \<times> gcry_call list" where
  "aacs_sexp_signature B signature =
     (let mpi_r = gcry_mpi_scan signature 20;
          mpi_s = gcry_mpi_scan (drop 20 signature) 20;
          sexp_sign = Sexp_sig_val mpi_r mpi_s
      in (sexp_build B sexp_sign, sexp_sign, [Call_sexp_build sexp_sign]))"

section \<open>ECDSA signing and verification\<close>

text \<open>
  \<^verbatim>\<open>crypto_aacs_sign\<close> returns \<^verbatim>\<open>void\<close>: what the caller can observe is the
  contents of the \<^verbatim>\<open>signature\<close> buffer afterwards.  The model returns that buffer and
  the calls made.
\<close>

definition crypto_aacs_sign ::
  "gcry \<Rightarrow> u8 list \<Rightarrow> u8 list \<Rightarrow> u8 list \<Rightarrow> u8 list \<Rightarrow> u8 list \<Rightarrow> u8 list \<times> gcry_call list" where
  "crypto_aacs_sign B cert priv_key signature nonce point =
     (case aacs_sexp_key B (drop 12 cert) (drop 32 cert) (Some priv_key) of
        (err1, sexp_key, t1) \<Rightarrow>
          if err1 \<noteq> 0 then (signature, t1)
          else
            let block = buf_write (buf_write (replicate 60 0) 0 (take 20 nonce)) 20 (take 40 point)
            in case aacs_sexp_sha1 B block 60 of
                 (err2, sexp_data, t2) \<Rightarrow>
                   if err2 \<noteq> 0 then (signature, t1 @ t2)
                   else
                     case pk_sign B sexp_data sexp_key of
                       (err3, mpi_r, mpi_s) \<Rightarrow>
                         if err3 \<noteq> 0
                         then (signature, t1 @ t2 @ [Call_pk_sign sexp_data sexp_key])
                         else
                           let sig1 = fst (snd (gcry_mpi_print signature 0 20 0 mpi_r));
                               sig2 = fst (snd (gcry_mpi_print sig1 20 20 0 mpi_s))
                           in (sig2, t1 @ t2 @ [Call_pk_sign sexp_data sexp_key]))"

definition aacs_verify ::
  "gcry \<Rightarrow> u8 list \<Rightarrow> u8 list \<Rightarrow> u8 list \<Rightarrow> u8 list \<Rightarrow> nat \<Rightarrow> gcry_error \<times> gcry_call list" where
  "aacs_verify B signature q_x q_y data len =
     (case aacs_sexp_key B q_x q_y None of
        (err1, sexp_key, t1) \<Rightarrow>
          if err1 \<noteq> 0 then (err1, t1)
          else
            case aacs_sexp_sha1 B data len of
              (err2, sexp_data, t2) \<Rightarrow>
                if err2 \<noteq> 0 then (err2, t1 @ t2)
                else
                  case aacs_sexp_signature B signature of
                    (err3, sexp_sig, t3) \<Rightarrow>
                      if err3 \<noteq> 0 then (err3, t1 @ t2 @ t3)
                      else (pk_verify B sexp_sig sexp_data sexp_key,
                            t1 @ t2 @ t3 @ [Call_pk_verify sexp_sig sexp_data sexp_key]))"

text \<open>C's \<^verbatim>\<open>!\<close> on an error code.\<close>

definition lnot :: "gcry_error \<Rightarrow> int" where
  "lnot err = (if err = 0 then 1 else 0)"

definition crypto_aacs_verify ::
  "gcry \<Rightarrow> u8 list \<Rightarrow> u8 list \<Rightarrow> u8 list \<Rightarrow> nat \<Rightarrow> int \<times> gcry_call list" where
  "crypto_aacs_verify B cert signature data len =
     (let r = aacs_verify B signature (drop 12 cert) (drop 32 cert) data len
      in (lnot (fst r), snd r))"

definition aacs_la_pubkey_x :: "u8 list" where
  "aacs_la_pubkey_x = [0x63, 0xC2, 0x1D, 0xFF, 0xB2, 0xB2, 0x79, 0x8A, 0x13, 0xB5,
                       0x8D, 0x61, 0x16, 0x6C, 0x4E, 0x4A, 0xAC, 0x8A, 0x07, 0x72]"

definition aacs_la_pubkey_y :: "u8 list" where
  "aacs_la_pubkey_y = [0x13, 0x7E, 0xC6, 0x38, 0x81, 0x8F, 0xD9, 0x8F, 0xA4, 0xC3,
                       0x0B, 0x99, 0x67, 0x28, 0xBF, 0x4B, 0x91, 0x7F, 0x6A, 0x27]"

definition crypto_aacs_verify_aacsla ::
  "gcry \<Rightarrow> u8 list \<Rightarrow> u8 list \<Rightarrow> nat \<Rightarrow> int \<times> gcry_call list" where
  "crypto_aacs_verify_aacsla B signature data len =
     (let r = aacs_verify B signature aacs_la_pubkey_x aacs_la_pubkey_y data len
      in (lnot (fst r), snd r))"

section \<open>Certificates\<close>

text \<open>
  Modelled from the spec: the macro \<^verbatim>\<open>MKINT_BE16\<close> of \<^verbatim>\<open>util/macro.h\<close> is not part of
  the sources at hand; the field it reads is described as a 16-bit big-endian integer.
\<close>

definition MKINT_BE16 :: "u8 list \<Rightarrow> nat" where
  "MKINT_BE16 X = unat (X ! 0) * 256 + unat (X ! 1)"

definition crypto_aacs_verify_cert :: "gcry \<Rightarrow> u8 list \<Rightarrow> int \<times> gcry_call list" where
  "crypto_aacs_verify_cert B cert =
     (if MKINT_BE16 (drop 2 cert) \<noteq> 0x5c then (0, [])
      else crypto_aacs_verify_aacsla B (drop 52 cert) cert 52)"

definition crypto_aacs_verify_host_cert :: "gcry \<Rightarrow> u8 list \<Rightarrow> int \<times> gcry_call list" where
  "crypto_aacs_verify_host_cert B cert =
     (if cert ! 0 \<noteq> 0x02 then (0, [])
      else
        let r = crypto_aacs_verify_cert B cert
        in if fst r = 0 then (0, snd r) else (1, snd r))"

definition crypto_aacs_verify_drive_cert :: "gcry \<Rightarrow> u8 list \<Rightarrow> int \<times> gcry_call list" where
  "crypto_aacs_verify_drive_cert B cert =
     (if cert ! 0 \<noteq> 0x01 then (0, [])
      else
        let r = crypto_aacs_verify_cert B cert
        in if fst r = 0 then (0, snd r) else (1, snd r))"

section \<open>The AACS curve and the elliptic-curve routines\<close>

record mpi_point_t =
  pt_x :: nat
  pt_y :: nat
  pt_z :: nat

record elliptic_curve_t =
  ec_p :: nat
  ec_a :: nat
  ec_b :: nat
  ec_n :: nat
  ec_G :: mpi_point_t

definition aacs_curve_init :: elliptic_curve_t where
  "aacs_curve_init =
     (let p   = [0x9D,0xC9,0xD8,0x13,0x55,0xEC,0xCE,0xB5,0x60,0xBD,
                 0xB0,0x9E,0xF9,0xEA,0xE7,0xC4,0x79,0xA7,0xD7,0xDF];
          a   = [0x9D,0xC9,0xD8,0x13,0x55,0xEC,0xCE,0xB5,0x60,0xBD,
                 0xB0,0x9E,0xF9,0xEA,0xE7,0xC4,0x79,0xA7,0xD7,0xDC];
          b   = [0x40,0x2D,0xAD,0x3E,0xC1,0xCB,0xCD,0x16,0x52,0x48,
                 0xD6,0x8E,0x12,0x45,0xE0,0xC4,0xDA,0xAC,0xB1,0xD8];
          n   = [0x9D,0xC9,0xD8,0x13,0x55,0xEC,0xCE,0xB5,0x60,0xBD,
                 0xC4,0x4F,0x54,0x81,0x7B,0x2C,0x7F,0x5A,0xB0,0x17];
          G_x = [0x2E,0x64,0xFC,0x22,0x57,0x83,0x51,0xE6,0xF4,0xCC,
                 0xA7,0xEB,0x81,0xD0,0xA4,0xBD,0xC5,0x4C,0xCE,0xC6];
          G_y = [0x09,0x14,0xA2,0x5D,0xD0,0x54,0x42,0x88,0x9D,0xB4,
                 0x55,0xC7,0xF2,0x3C,0x9A,0x07,0x07,0xF5,0xCB,0xB9]
      in \<lparr>ec_p = gcry_mpi_scan p 20, ec_a = gcry_mpi_scan a 20,
          ec_b = gcry_mpi_scan b 20, ec_n = gcry_mpi_scan n 20,
          ec_G = \<lparr>pt_x = gcry_mpi_scan G_x 20, pt_y = gcry_mpi_scan G_y 20, pt_z = 1\<rparr>\<rparr>)"

text \<open>
  The context of the curve arithmetic, made by \<^verbatim>\<open>_gcry_mpi_ec_init (p, a)\<close>, and the two
  routines of the included \<^verbatim>\<open>ec.c\<close> that the source calls.  \<^verbatim>\<open>ec.c\<close> is not part of
  the sources at hand, so the routines are parameters of the model:
  \<open>ec_mul_point scalar point ctx\<close> is the point that \<^verbatim>\<open>_gcry_mpi_ec_mul_point\<close> stores
  in its result, and \<open>ec_get_affine point ctx\<close> is \<open>Some (x, y)\<close> when
  \<^verbatim>\<open>_gcry_mpi_ec_get_affine\<close> succeeds and stores x and y, \<open>None\<close> when it fails and
  stores nothing.
\<close>

record mpi_ec_t =
  ctx_p :: nat
  ctx_a :: nat

definition gcry_mpi_ec_init :: "nat \<Rightarrow> nat \<Rightarrow> mpi_ec_t" where
  "gcry_mpi_ec_init p a = \<lparr>ctx_p = p, ctx_a = a\<rparr>"

record ec_lib =
  ec_mul_point :: "nat \<Rightarrow> mpi_point_t \<Rightarrow> mpi_ec_t \<Rightarrow> mpi_point_t"
  ec_get_affine :: "mpi_point_t \<Rightarrow> mpi_ec_t \<Rightarrow> (nat \<times> nat) option"

section \<open>Key agreement\<close>

text \<open>
  \<^verbatim>\<open>q_x\<close> is made by \<^verbatim>\<open>mpi_new (0)\<close> and so is 0 when \<^verbatim>\<open>_gcry_mpi_ec_get_affine\<close>
  fails (its result is not looked at).  The array \<^verbatim>\<open>q_x_bin\<close> has 100 bytes,
  uninitialised (zeros here); \<^verbatim>\<open>n\<close> starts as 0.  The source of the final
  \<^verbatim>\<open>memcpy\<close> is \<^verbatim>\<open>q_x_bin + n - 16\<close>.
\<close>

definition crypto_create_bus_key ::
  "ec_lib \<Rightarrow> u8 list \<Rightarrow> u8 list \<Rightarrow> u8 list \<Rightarrow> mem_error + u8 list" where
  "crypto_create_bus_key E priv_key drive_key_point bus_key =
     (let ec = aacs_curve_init;
          ctx = gcry_mpi_ec_init (ec_p ec) (ec_a ec);
          mpi_priv_key = gcry_mpi_scan priv_key 20;
          Q = \<lparr>pt_x = gcry_mpi_scan drive_key_point 20,
               pt_y = gcry_mpi_scan (drop 20 drive_key_point) 20,
               pt_z = 1\<rparr>;
          bus_key_point = ec_mul_point E mpi_priv_key Q ctx;
          q_x = (case ec_get_affine E bus_key_point ctx of None \<Rightarrow> 0 | Some (x, y) \<Rightarrow> x);
          pr = gcry_mpi_print (replicate 100 0) 0 100 0 q_x;
          q_x_bin = fst (snd pr);
          n = snd (snd pr)
      in case buf_read q_x_bin (int n - 16) 16 of
           Inl e \<Rightarrow> Inl e
         | Inr bs \<Rightarrow> Inr (buf_write bus_key 0 bs))"

text \<open>
  \<^verbatim>\<open>gcry_randomize (host_key, 20, 1)\<close> fills \<^verbatim>\<open>host_key\<close> with random bytes: they are
  the argument \<open>rnd\<close>.  The result is the contents of the two output buffers.
\<close>

definition crypto_create_host_key_pair ::
  "ec_lib \<Rightarrow> u8 list \<Rightarrow> u8 list \<Rightarrow> u8 list \<Rightarrow> u8 list \<times> u8 list" where
  "crypto_create_host_key_pair E rnd host_key host_key_point =
     (let host_key1 = buf_write host_key 0 (take 20 rnd);
          d = gcry_mpi_scan host_key1 20;
          ec = aacs_curve_init;
          ctx = gcry_mpi_ec_init (ec_p ec) (ec_a ec);
          Q = ec_mul_point E d (ec_G ec) ctx;
          q = (case ec_get_affine E Q ctx of None \<Rightarrow> (0, 0) | Some xy \<Rightarrow> xy);
          hkp1 = fst (snd (gcry_mpi_print host_key_point 0 20 0 (fst q)));
          hkp2 = fst (snd (gcry_mpi_print hkp1 20 20 0 (snd q)))
      in (host_key1, hkp2))"

section \<open>Reference arithmetic on the curve\<close>

text \<open>
  Modelled from the spec: the curve arithmetic of \<^verbatim>\<open>ec.c\<close>, which is not part of the
  sources at hand.  The spec describes \<open>scalarMultiply\<close> as computing the scalar multiple
  of a point in the curve's modular arithmetic and \<open>toAffine\<close> as normalising a
  projective point, failing for the identity (z = 0).  Points are affine pairs of
  residues modulo p, \<open>None\<close> being the identity; the scalar multiple is computed by
  doubling and adding.
\<close>

function inv_mod_loop :: "nat \<Rightarrow> nat \<Rightarrow> int \<Rightarrow> int \<Rightarrow> nat \<times> int" where
  "inv_mod_loop r0 r1 t0 t1 =
     (if r1 = 0 then (r0, t0)
      else inv_mod_loop r1 (r0 mod r1) t1 (t0 - int (r0 div r1) * t1))"
  by pat_completeness auto
termination
  by (relation "measure (\<lambda>(r0, r1, t0, t1). r1)") auto

declare inv_mod_loop.simps [simp del]

text \<open>The inverse of \<open>x\<close> modulo \<open>p\<close> by the extended Euclidean algorithm; 0 when there is none.\<close>

definition inv_mod :: "nat \<Rightarrow> nat \<Rightarrow> nat" where
  "inv_mod p x =
     (case inv_mod_loop p (x mod p) 0 1 of
        (g, t) \<Rightarrow> if g = 1 then nat (t mod int p) else 0)"

type_synonym ec_point = "(nat \<times> nat) option"

definition ec_add :: "nat \<Rightarrow> nat \<Rightarrow> ec_point \<Rightarrow> ec_point \<Rightarrow> ec_point" where
  "ec_add p a P Q =
     (case P of None \<Rightarrow> Q
      | Some (x1, y1) \<Rightarrow>
          (case Q of None \<Rightarrow> P
           | Some (x2, y2) \<Rightarrow>
               if x1 = x2 \<and> (y1 + y2) mod p = 0 then None
               else
                 let l = (if x1 = x2
                          then (3 * x1 * x1 + a) * inv_mod p (2 * y1) mod p
                          else (y2 + (p - y1)) * inv_mod p (x2 + (p - x1)) mod p);
                     x3 = (l * l + (p - x1) + (p - x2)) mod p;
                     y3 = (l * (x1 + (p - x3)) + (p - y1)) mod p
                 in Some (x3, y3)))"

fun ec_scalar_mult :: "nat \<Rightarrow> nat \<Rightarrow> nat \<Rightarrow> ec_point \<Rightarrow> ec_point" where
  "ec_scalar_mult p a k P =
     (if k = 0 then None
      else
        let H = ec_scalar_mult p a (k div 2) P;
            D = ec_add p a H H
        in if odd k then ec_add p a D P else D)"

declare ec_scalar_mult.simps [simp del]

definition point_of_mpi :: "nat \<Rightarrow> mpi_point_t \<Rightarrow> ec_point" where
  "point_of_mpi p P =
     (if pt_z P mod p = 0 then None
      else Some (pt_x P * inv_mod p (pt_z P) mod p, pt_y P * inv_mod p (pt_z P) mod p))"

definition mpi_of_point :: "ec_point \<Rightarrow> mpi_point_t" where
  "mpi_of_point P =
     (case P of None \<Rightarrow> \<lparr>pt_x = 1, pt_y = 1, pt_z = 0\<rparr>
      | Some (x, y) \<Rightarrow> \<lparr>pt_x = x, pt_y = y, pt_z = 1\<rparr>)"

definition reference_ec :: ec_lib where
  "reference_ec =
     \<lparr>ec_mul_point = (\<lambda>k P ctx.
          mpi_of_point (ec_scalar_mult (ctx_p ctx) (ctx_a ctx) k (point_of_mpi (ctx_p ctx) P))),
      ec_get_affine = (\<lambda>P ctx. point_of_mpi (ctx_p ctx) P)\<rparr>"

section \<open>Specification-level functions\<close>

text \<open>
  The functions of this section follow the words of the specification, not the code;
  the theorems compare the code with them.
\<close>

text \<open>The big-endian encoding of a number in exactly \<open>k\<close> bytes (its low \<open>8k\<close> bits).\<close>

fun be_bytes :: "nat \<Rightarrow> nat \<Rightarrow> u8 list" where
  "be_bytes 0 v = []"
| "be_bytes (Suc k) v = of_nat (v div 256 ^ k) # be_bytes k v"

text \<open>Byte-wise exclusive or of two blocks.\<close>

definition xor_bytes :: "u8 list \<Rightarrow> u8 list \<Rightarrow> u8 list" where
  "xor_bytes xs ys = map (\<lambda>(x, y). x XOR y) (zip xs ys)"

text \<open>
  AES-G3 for one increment, for a block decryption function \<open>dec\<close>: the seed with its
  last byte incremented (modulo 256), decrypted under the key, exclusive-or the
  incremented seed.
\<close>

definition spec_SEED :: "u8 list" where
  "spec_SEED = be_bytes 16 0x7B103C5DCB08C4E51A27B01799053BD9"

definition spec_seed :: "u8 \<Rightarrow> u8 list" where
  "spec_seed inc = butlast spec_SEED @ [last spec_SEED + inc]"

definition spec_aesg3 :: "(u8 list \<Rightarrow> u8 list \<Rightarrow> u8 list) \<Rightarrow> u8 list \<Rightarrow> u8 \<Rightarrow> u8 list" where
  "spec_aesg3 dec K inc = xor_bytes (dec K (spec_seed inc)) (spec_seed inc)"

text \<open>
  A one-bit left shift of a 128-bit value held in 16 bytes, the carry out of the top
  discarded; the first CMAC subkey; the single-block CMAC, for a block encryption
  function \<open>enc\<close>.
\<close>

definition spec_shiftLeft1 :: "u8 list \<Rightarrow> u8 list" where
  "spec_shiftLeft1 L = be_bytes 16 ((2 * be_value L) mod 2 ^ 128)"

definition spec_K1 :: "u8 list \<Rightarrow> u8 list" where
  "spec_K1 L =
     (if 2 ^ 127 \<le> be_value L
      then butlast (spec_shiftLeft1 L) @ [last (spec_shiftLeft1 L) XOR 0x87]
      else spec_shiftLeft1 L)"

definition spec_cmac16 :: "(u8 list \<Rightarrow> u8 list \<Rightarrow> u8 list) \<Rightarrow> u8 list \<Rightarrow> u8 list \<Rightarrow> u8 list" where
  "spec_cmac16 enc data aesKey = enc aesKey (xor_bytes data (spec_K1 (enc aesKey (replicate 16 0))))"

text \<open>A block cipher maps a block to a block of the same length.\<close>

definition cipher_ok :: "gcry \<Rightarrow> bool" where
  "cipher_ok B \<longleftrightarrow>
     (\<forall>k b. length (cipher_encrypt B k b) = length b \<and> length (cipher_decrypt B k b) = length b)"

text \<open>
  Verification as the specification describes it: the public key object from
  \<open>(qx, qy)\<close>, the digest object from SHA-1 of the data, the signature object from the
  two 20-byte halves of the signature; true exactly when all three are built and ECDSA
  verification accepts.
\<close>

definition spec_verify :: "gcry \<Rightarrow> u8 list \<Rightarrow> u8 list \<Rightarrow> u8 list \<Rightarrow> u8 list \<Rightarrow> bool" where
  "spec_verify B signature qx qy data =
     (let key = Sexp_key ''public-key''
                  (AACS_EC_p, AACS_EC_a, AACS_EC_b, AACS_EC_g, AACS_EC_n)
                  ([0x04] @ qx @ qy) None;
          digest = Sexp_data (be_value (md_hash_buffer B data));
          sig = Sexp_sig_val (be_value (take 20 signature)) (be_value (drop 20 signature))
      in sexp_build B key = 0 \<and> sexp_build B digest = 0 \<and> sexp_build B sig = 0 \<and>
         pk_verify B sig digest key = 0)"

text \<open>A hash function with 20-byte digests.\<close>

definition hash_ok :: "gcry \<Rightarrow> bool" where
  "hash_ok B \<longleftrightarrow> (\<forall>m. length (md_hash_buffer B m) = 20)"

section \<open>Auxiliary definitions for the statements\<close>

text \<open>
  The byte-wise description of the one-bit shift: every byte is shifted left and takes
  the top bit of its right neighbour.
\<close>

fun shl_bytes :: "u8 list \<Rightarrow> u8 list" where
  "shl_bytes [] = []"
| "shl_bytes [x] = [push_bit 1 x]"
| "shl_bytes (x # y # ys) = (push_bit 1 x OR drop_bit 7 y) # shl_bytes (y # ys)"

text \<open>An output buffer of \<open>crypto_aesg3\<close> is absent or has 16 bytes.\<close>

definition out_buf_ok :: "u8 list option \<Rightarrow> bool" where
  "out_buf_ok out = (case out of None \<Rightarrow> True | Some buf \<Rightarrow> length buf = 16)"

text \<open>The value of a requested output; nothing for an output that is not requested.\<close>

definition requested :: "u8 list option \<Rightarrow> u8 list \<Rightarrow> u8 list option" where
  "requested out v = (case out of None \<Rightarrow> None | Some buf \<Rightarrow> Some v)"

definition spec_aesg3_calls :: "u8 list \<Rightarrow> u8 list option \<Rightarrow> u8 \<Rightarrow> gcry_call list" where
  "spec_aesg3_calls K out inc =
     (case out of None \<Rightarrow> [] | Some buf \<Rightarrow> [Call_cipher_decrypt K (spec_seed inc)])"

text \<open>
  A failure inside \<open>sign\<close>, in the words of the specification: the construction of the
  key object or of the digest object fails, or the ECDSA sign operation fails.
\<close>

definition sign_failed :: "gcry \<Rightarrow> u8 list \<Rightarrow> u8 list \<Rightarrow> u8 list \<Rightarrow> u8 list \<Rightarrow> bool" where
  "sign_failed B cert priv_key nonce point =
     (let key = Sexp_key ''private-key''
                  (AACS_EC_p, AACS_EC_a, AACS_EC_b, AACS_EC_g, AACS_EC_n)
                  ([0x04] @ take 20 (drop 12 cert) @ take 20 (drop 32 cert))
                  (Some (be_value priv_key));
          digest = Sexp_data (be_value (md_hash_buffer B (nonce @ point)))
      in 0 < sexp_build B key \<or> 0 < sexp_build B digest \<or> 0 < fst (pk_sign B digest key))"

text \<open>
  The x-coordinate that \<open>crypto_create_bus_key\<close> hands to \<open>gcry_mpi_print\<close>: the first
  part of that function, up to the conversion to affine coordinates.
\<close>

definition bus_key_q_x :: "ec_lib \<Rightarrow> u8 list \<Rightarrow> u8 list \<Rightarrow> nat" where
  "bus_key_q_x E priv_key drive_key_point =
     (let ec = aacs_curve_init;
          ctx = gcry_mpi_ec_init (ec_p ec) (ec_a ec);
          Q = \<lparr>pt_x = gcry_mpi_scan drive_key_point 20,
               pt_y = gcry_mpi_scan (drop 20 drive_key_point) 20,
               pt_z = 1\<rparr>;
          bus_key_point = ec_mul_point E (gcry_mpi_scan priv_key 20) Q ctx
      in case ec_get_affine E bus_key_point ctx of None \<Rightarrow> 0 | Some (x, y) \<Rightarrow> x)"

section \<open>Concrete inputs\<close>

text \<open>
  A stand-in for libgcrypt on which the model can be run: a key-dependent byte-wise
  cipher, a 20-byte digest, constructions that always succeed, and a signing operation
  with a fixed result that the verification accepts.  \<open>failing_gcry\<close> differs in that
  its signing operation fails.
\<close>

definition test_r_bytes :: "u8 list" where
  "test_r_bytes = [0x11, 0x12, 0x13, 0x14, 0x15, 0x16, 0x17, 0x18, 0x19, 0x1A,
                      0x1B, 0x1C, 0x1D, 0x1E, 0x1F, 0x20, 0x21, 0x22, 0x23, 0x24]"

definition test_s_bytes :: "u8 list" where
  "test_s_bytes = [0x31, 0x32, 0x33, 0x34, 0x35, 0x36, 0x37, 0x38, 0x39, 0x3A,
                      0x3B, 0x3C, 0x3D, 0x3E, 0x3F, 0x40, 0x41, 0x42, 0x43, 0x44]"

definition test_gcry :: gcry where
  "test_gcry =
     \<lparr>cipher_encrypt = (\<lambda>k b. map (\<lambda>(x, y). x + y) (zip b (k @ replicate (length b) 0))),
      cipher_decrypt = (\<lambda>k b. map (\<lambda>(x, y). x - y) (zip b (k @ replicate (length b) 0))),
      md_hash_buffer = (\<lambda>m. take 20 (m @ replicate 20 0)),
      sexp_build = (\<lambda>s. 0),
      pk_sign = (\<lambda>data key. (0, be_value test_r_bytes, be_value test_s_bytes)),
      pk_verify = (\<lambda>sig data key.
         if sig = Sexp_sig_val (be_value test_r_bytes) (be_value test_s_bytes) then 0 else 8)\<rparr>"

definition failing_gcry :: gcry where
  "failing_gcry = test_gcry\<lparr>pk_sign := (\<lambda>data key. (1, 0, 0))\<rparr>"

definition test_key :: "u8 list" where
  "test_key = [0x00, 0x01, 0x02, 0x03, 0x04, 0x05, 0x06, 0x07,
                  0x08, 0x09, 0x0A, 0x0B, 0x0C, 0x0D, 0x0E, 0x0F]"

definition test_data :: "u8 list" where
  "test_data = [0x6B, 0xC1, 0xBE, 0xE2, 0x2E, 0x40, 0x9F, 0x96,
                   0xE9, 0x3D, 0x7E, 0x11, 0x73, 0x93, 0x17, 0x2A]"

definition test_block :: "u8 list" where
  "test_block = [0x80, 0x01, 0xFF, 0x00, 0x7F, 0xC3, 0x00, 0x00,
                    0x00, 0x00, 0x00, 0x00, 0x00, 0x00, 0x80, 0x81]"

definition zero_block :: "u8 list" where
  "zero_block = [0x00, 0x00, 0x00, 0x00, 0x00, 0x00, 0x00, 0x00,
                    0x00, 0x00, 0x00, 0x00, 0x00, 0x00, 0x00, 0x00]"

text \<open>
  Three 92-byte certificates: a host certificate (type 2), a drive certificate (type 1)
  and one whose length field is \<open>0x005d\<close>.  All carry the signature that \<open>test_gcry\<close>
  accepts.
\<close>

definition test_host_cert :: "u8 list" where
  "test_host_cert = [0x02, 0x00, 0x00, 0x5C, 0x03, 0x0A, 0x11, 0x18, 0x1F, 0x26,
                        0x2D, 0x34, 0x3B, 0x42, 0x49, 0x50, 0x57, 0x5E, 0x65, 0x6C,
                        0x73, 0x7A, 0x81, 0x88, 0x8F, 0x96, 0x9D, 0xA4, 0xAB, 0xB2,
                        0xB9, 0xC0, 0xC7, 0xCE, 0xD5, 0xDC, 0xE3, 0xEA, 0xF1, 0xF8,
                        0xFF, 0x06, 0x0D, 0x14, 0x1B, 0x22, 0x29, 0x30, 0x37, 0x3E,
                        0x45, 0x4C, 0x11, 0x12, 0x13, 0x14, 0x15, 0x16, 0x17, 0x18,
                        0x19, 0x1A, 0x1B, 0x1C, 0x1D, 0x1E, 0x1F, 0x20, 0x21, 0x22,
                        0x23, 0x24, 0x31, 0x32, 0x33, 0x34, 0x35, 0x36, 0x37, 0x38,
                        0x39, 0x3A, 0x3B, 0x3C, 0x3D, 0x3E, 0x3F, 0x40, 0x41, 0x42,
                        0x43, 0x44]"

definition test_drive_cert :: "u8 list" where
  "test_drive_cert = [0x01, 0x00, 0x00, 0x5C, 0x03, 0x0A, 0x11, 0x18, 0x1F, 0x26,
                         0x2D, 0x34, 0x3B, 0x42, 0x49, 0x50, 0x57, 0x5E, 0x65, 0x6C,
                         0x73, 0x7A, 0x81, 0x88, 0x8F, 0x96, 0x9D, 0xA4, 0xAB, 0xB2,
                         0xB9, 0xC0, 0xC7, 0xCE, 0xD5, 0xDC, 0xE3, 0xEA, 0xF1, 0xF8,
                         0xFF, 0x06, 0x0D, 0x14, 0x1B, 0x22, 0x29, 0x30, 0x37, 0x3E,
                         0x45, 0x4C, 0x11, 0x12, 0x13, 0x14, 0x15, 0x16, 0x17, 0x18,
                         0x19, 0x1A, 0x1B, 0x1C, 0x1D, 0x1E, 0x1F, 0x20, 0x21, 0x22,
                         0x23, 0x24, 0x31, 0x32, 0x33, 0x34, 0x35, 0x36, 0x37, 0x38,
                         0x39, 0x3A, 0x3B, 0x3C, 0x3D, 0x3E, 0x3F, 0x40, 0x41, 0x42,
                         0x43, 0x44]"

definition test_bad_cert :: "u8 list" where
  "test_bad_cert = [0x02, 0x00, 0x00, 0x5D, 0x03, 0x0A, 0x11, 0x18, 0x1F, 0x26,
                       0x2D, 0x34, 0x3B, 0x42, 0x49, 0x50, 0x57, 0x5E, 0x65, 0x6C,
                       0x73, 0x7A, 0x81, 0x88, 0x8F, 0x96, 0x9D, 0xA4, 0xAB, 0xB2,
                       0xB9, 0xC0, 0xC7, 0xCE, 0xD5, 0xDC, 0xE3, 0xEA, 0xF1, 0xF8,
                       0xFF, 0x06, 0x0D, 0x14, 0x1B, 0x22, 0x29, 0x30, 0x37, 0x3E,
                       0x45, 0x4C, 0x11, 0x12, 0x13, 0x14, 0x15, 0x16, 0x17, 0x18,
                       0x19, 0x1A, 0x1B, 0x1C, 0x1D, 0x1E, 0x1F, 0x20, 0x21, 0x22,
                       0x23, 0x24, 0x31, 0x32, 0x33, 0x34, 0x35, 0x36, 0x37, 0x38,
                       0x39, 0x3A, 0x3B, 0x3C, 0x3D, 0x3E, 0x3F, 0x40, 0x41, 0x42,
                       0x43, 0x44]"

definition test_nonce :: "u8 list" where
  "test_nonce = [0xA0, 0xA1, 0xA2, 0xA3, 0xA4, 0xA5, 0xA6, 0xA7, 0xA8, 0xA9,
                   0xAA, 0xAB, 0xAC, 0xAD, 0xAE, 0xAF, 0xB0, 0xB1, 0xB2, 0xB3]"

text \<open>The base point of the curve, as 40 bytes.\<close>

definition test_point :: "u8 list" where
  "test_point = [0x2E, 0x64, 0xFC, 0x22, 0x57, 0x83, 0x51, 0xE6, 0xF4, 0xCC,
                   0xA7, 0xEB, 0x81, 0xD0, 0xA4, 0xBD, 0xC5, 0x4C, 0xCE, 0xC6,
                   0x09, 0x14, 0xA2, 0x5D, 0xD0, 0x54, 0x42, 0x88, 0x9D, 0xB4,
                   0x55, 0xC7, 0xF2, 0x3C, 0x9A, 0x07, 0x07, 0xF5, 0xCB, 0xB9]"

text \<open>The scalars 1 and 69 as 20-byte private keys.\<close>

definition priv_key_1 :: "u8 list" where
  "priv_key_1 = [0x00, 0x00, 0x00, 0x00, 0x00, 0x00, 0x00, 0x00, 0x00, 0x00,
                   0x00, 0x00, 0x00, 0x00, 0x00, 0x00, 0x00, 0x00, 0x00, 0x01]"

definition host_key_69 :: "u8 list" where
  "host_key_69 = [0x00, 0x00, 0x00, 0x00, 0x00, 0x00, 0x00, 0x00, 0x00, 0x00,
                    0x00, 0x00, 0x00, 0x00, 0x00, 0x00, 0x00, 0x00, 0x00, 0x45]"

text \<open>
  Two points of the curve with a short x-coordinate: x = 1 and x = 2, with
  \<open>y\<^sup>2 = x\<^sup>3 + a x + b\<close> modulo p.
\<close>

definition small_point_1 :: "u8 list" where
  "small_point_1 = [0x00, 0x00, 0x00, 0x00, 0x00, 0x00, 0x00, 0x00, 0x00, 0x00,
                      0x00, 0x00, 0x00, 0x00, 0x00, 0x00, 0x00, 0x00, 0x00, 0x01,
                      0x3C, 0x3E, 0x82, 0xAA, 0x9D, 0xE8, 0x9A, 0x16, 0x21, 0x2B,
                      0x37, 0xDA, 0x11, 0x00, 0x94, 0xBB, 0x6C, 0x0B, 0x74, 0x0A]"

definition small_point_2 :: "u8 list" where
  "small_point_2 = [0x00, 0x00, 0x00, 0x00, 0x00, 0x00, 0x00, 0x00, 0x00, 0x00,
                      0x00, 0x00, 0x00, 0x00, 0x00, 0x00, 0x00, 0x00, 0x00, 0x02,
                      0x9B, 0x4E, 0x3F, 0xE5, 0xF9, 0x5B, 0xB4, 0x2B, 0x63, 0x9C,
                      0x81, 0x0D, 0xE0, 0x66, 0x67, 0xF2, 0x1D, 0xC9, 0x18, 0x0C]"

text \<open>The coordinates of 69 times the base point.\<close>

definition x_69G :: nat where
  "x_69G = 0x975C0E5D12CA2E594A18BDAFCECF02D4587E0373"

definition y_69G :: nat where
  "y_69G = 0x9F6CD801103A12FE2E442C635146B24369CEDA"

definition x_69G_bytes :: "u8 list" where
  "x_69G_bytes = [0x97, 0x5C, 0x0E, 0x5D, 0x12, 0xCA, 0x2E, 0x59, 0x4A, 0x18,
                    0xBD, 0xAF, 0xCE, 0xCF, 0x02, 0xD4, 0x58, 0x7E, 0x03, 0x73]"

definition y_69G_bytes :: "u8 list" where
  "y_69G_bytes = [0x9F, 0x6C, 0xD8, 0x01, 0x10, 0x3A, 0x12, 0xFE, 0x2E, 0x44,
                    0x2C, 0x63, 0x51, 0x46, 0xB2, 0x43, 0x69, 0xCE, 0xDA]"

text \<open>The signature that \<open>test_gcry\<close> produces, as 40 bytes.\<close>

definition test_signature :: "u8 list" where
  "test_signature = test_r_bytes @ test_s_bytes"

section \<open>Lemmas\<close>

subsection \<open>Big-endian values\<close>

lemma unat_u8_less: "unat (b::u8) < 256"
  using unsigned_less [of b, where 'a = nat] by simp

lemma be_value_less: "be_value bs < 256 ^ length bs"
proof (induction bs)
  case Nil
  then show ?case by simp
next
  case (Cons b bs)
  have "unat b \<le> 255" using unat_u8_less [of b] by simp
  then have "unat b * 256 ^ length bs \<le> 255 * 256 ^ length bs" by simp
  moreover have "be_value bs < 256 ^ length bs" by (rule Cons.IH)
  ultimately have "unat b * 256 ^ length bs + be_value bs < 255 * 256 ^ length bs + 256 ^ length bs"
    by (rule add_le_less_mono)
  then show ?case by simp
qed

lemma be_value_append: "be_value (xs @ ys) = be_value xs * 256 ^ length ys + be_value ys"
  by (induction xs) (simp_all add: algebra_simps power_add)

lemma length_be_bytes: "length (be_bytes k v) = k"
  by (induction k) simp_all

lemma of_nat_256_u8: "(of_nat (m * 256) :: u8) = 0"
proof -
  have "(of_nat (m * 256) :: u8) = of_nat m * 256" by simp
  also have "(256 :: u8) = 0" by simp
  finally show ?thesis by simp
qed

lemma be_bytes_add_multiple: "be_bytes k (v + m * 256 ^ k) = be_bytes k v"
proof (induction k arbitrary: m)
  case 0
  then show ?case by simp
next
  case (Suc k)
  have "v + m * 256 ^ Suc k = v + (m * 256) * 256 ^ k" by simp
  then have "(v + m * 256 ^ Suc k) div 256 ^ k = (v + (m * 256) * 256 ^ k) div 256 ^ k"
    by (rule arg_cong)
  also have "\<dots> = v div 256 ^ k + m * 256"
    using div_mult_self1 [of "256 ^ k :: nat" v "m * 256"] by (simp add: add.commute)
  finally have dv: "(v + m * 256 ^ Suc k) div 256 ^ k = v div 256 ^ k + m * 256" .
  have "(of_nat (v div 256 ^ k + m * 256) :: u8) = of_nat (v div 256 ^ k) + of_nat (m * 256)"
    by (rule of_nat_add)
  also have "\<dots> = of_nat (v div 256 ^ k)"
    by (simp only: of_nat_256_u8 add_0_right)
  finally have hd: "(of_nat ((v + m * 256 ^ Suc k) div 256 ^ k) :: u8) = of_nat (v div 256 ^ k)"
    by (simp only: dv)
  have "be_bytes k (v + m * 256 ^ Suc k) = be_bytes k (v + (m * 256) * 256 ^ k)"
    by (simp add: algebra_simps)
  also have "\<dots> = be_bytes k v" by (rule Suc.IH)
  finally show ?case using hd by (simp del: power_Suc)
qed

lemma be_bytes_be_value: "be_bytes (length xs) (be_value xs) = xs"
proof (induction xs)
  case Nil
  then show ?case by simp
next
  case (Cons b bs)
  have lt: "be_value bs < 256 ^ length bs" by (rule be_value_less)
  have "(unat b * 256 ^ length bs + be_value bs) div 256 ^ length bs = unat b"
    using lt by simp
  moreover have "be_bytes (length bs) (be_value bs + unat b * 256 ^ length bs) = bs"
    using Cons.IH by (simp only: be_bytes_add_multiple)
  ultimately show ?case by (simp add: add.commute)
qed

subsection \<open>The 128-bit shift\<close>

lemma length_shl_128_loop: "length (shl_128_loop k dst src ov) = length dst"
  by (induction k arbitrary: dst ov) simp_all

lemma shl_128_loop_nth:
  "k \<le> length dst \<Longrightarrow> i < length dst \<Longrightarrow>
   shl_128_loop k dst src ov ! i =
     (if i < k then push_bit 1 (src ! i) OR (if Suc i = k then ov else drop_bit 7 (src ! Suc i))
      else dst ! i)"
proof (induction k arbitrary: dst ov)
  case 0
  then show ?case by simp
next
  case (Suc k)
  then show ?case by (auto simp: nth_list_update less_Suc_eq)
qed

lemma length_shl_bytes: "length (shl_bytes xs) = length xs"
  by (induction xs rule: shl_bytes.induct) simp_all

lemma shl_bytes_nth:
  "i < length xs \<Longrightarrow>
   shl_bytes xs ! i =
     push_bit 1 (xs ! i) OR (if Suc i = length xs then 0 else drop_bit 7 (xs ! Suc i))"
proof (induction xs arbitrary: i rule: shl_bytes.induct)
  case 1
  then show ?case by simp
next
  case (2 x)
  then show ?case by simp
next
  case (3 x y ys)
  then show ?case by (cases i) auto
qed

lemma shl_128_eq_shl_bytes:
  assumes "length dst = 16" "length src = 16"
  shows "shl_128 dst src = shl_bytes src"
proof (rule nth_equalityI)
  show "length (shl_128 dst src) = length (shl_bytes src)"
    using assms by (simp add: shl_128_def length_shl_128_loop length_shl_bytes)
next
  fix i assume "i < length (shl_128 dst src)"
  then have i: "i < 16" using assms by (simp add: shl_128_def length_shl_128_loop)
  then show "shl_128 dst src ! i = shl_bytes src ! i"
    using assms by (simp add: shl_128_def shl_128_loop_nth shl_bytes_nth)
qed

lemma unat_shl1: "unat (push_bit 1 (x::u8)) = (2 * unat x) mod 256"
  by (simp add: unat_word_ariths mult.commute)

lemma unat_shr7: "unat (drop_bit 7 (y::u8)) = unat y div 128"
  by (simp add: drop_bit_eq_div unat_div_distrib)

lemma even_shl: "\<not> bit (push_bit 1 (x::u8)) 0"
  by (simp add: bit_0)

lemma shr7_hi: "\<not> bit (drop_bit 7 (y::u8)) (Suc m)"
  by (auto simp add: bit_drop_bit_eq dest: bit_imp_le_length)

lemma shl_or_add: "push_bit 1 (x::u8) OR drop_bit 7 (y::u8) = push_bit 1 x + drop_bit 7 y"
proof -
  have "\<not> bit (push_bit 1 x) n \<or> \<not> bit (drop_bit 7 y) n" for n
    using even_shl [of x] shr7_hi [of y] by (cases n) blast+
  then show ?thesis by (rule disjunctive_add [symmetric])
qed

lemma twice_mod_256: "(2 * (k::nat)) mod 256 \<le> 254"
proof -
  have "(2 * k) mod 256 = 2 * (k mod 128)"
    using mult_mod_right [of 2 k 128] by simp
  moreover have "k mod 128 \<le> 127"
    using mod_less_divisor [of 128 k] by simp
  ultimately show ?thesis by simp
qed

lemma unat_shl_or:
  "unat (push_bit 1 (x::u8) OR drop_bit 7 (y::u8)) = (2 * unat x) mod 256 + unat y div 128"
proof -
  have "unat y < 256" by (rule unat_u8_less)
  then have c: "unat y div 128 \<le> 1" by simp
  have "(2 * unat x) mod 256 + unat y div 128 < 256"
    using c twice_mod_256 [of "unat x"] by linarith
  then have "unat (push_bit 1 x + drop_bit 7 y) = (2 * unat x) mod 256 + unat y div 128"
    unfolding unat_word_ariths unat_shl1 unat_shr7 by simp
  then show ?thesis by (simp only: shl_or_add)
qed

text \<open>The top bit of a non-empty big-endian string, as a number.\<close>

lemma top_bit_carry:
  "unat y div 128 = (2 * be_value (y # ys)) div 256 ^ length (y # ys)"
proof -
  define M :: nat where "M = 256 ^ length ys"
  define v where "v = be_value (y # ys)"
  define N :: nat where "N = 256 * M"
  have Npos: "0 < N" by (simp add: N_def M_def)
  have ylt: "unat y < 256" by (rule unat_u8_less)
  have vM: "v = unat y * M + be_value ys" by (simp add: v_def M_def)
  have rM: "be_value ys < M" unfolding M_def by (rule be_value_less)
  have vlt: "v < N" using be_value_less [of "y # ys"] by (simp add: v_def N_def M_def)
  have "unat y div 128 = (2 * v) div N"
  proof (cases "unat y < 128")
    case True
    then have "unat y \<le> 127" by simp
    then have "unat y * M \<le> 127 * M" by simp
    then have "unat y * M + be_value ys < 127 * M + M" using rM by (rule add_le_less_mono)
    then have "v < 128 * M" unfolding vM by simp
    then have "2 * v < N" unfolding N_def by simp
    then show ?thesis using True by simp
  next
    case False
    then have "128 \<le> unat y" by simp
    then have "128 * M \<le> unat y * M" by simp
    then have "128 * M \<le> v" unfolding vM by (rule trans_le_add1)
    then have lo: "N \<le> 2 * v" unfolding N_def by simp
    have "2 * v < 2 * N" using vlt by simp
    with lo have "(2 * v) div N = 1"
      by (metis Npos div_nat_eqI mult.commute mult_1 mult_2 mult_Suc numeral_2_eq_2 One_nat_def)
    moreover have "unat y div 128 = 1" using False ylt by simp
    ultimately show ?thesis by simp
  qed
  then show ?thesis by (simp add: v_def N_def M_def)
qed

lemma be_value_shl_bytes:
  "be_value (shl_bytes xs) = (2 * be_value xs) mod 256 ^ length xs"
proof (induction xs rule: shl_bytes.induct)
  case 1
  then show ?case by simp
next
  case (2 x)
  then show ?case by (simp only: shl_bytes.simps be_value.simps unat_shl1) simp
next
  case (3 x y ys)
  define n where "n = length (y # ys)"
  define v where "v = be_value (y # ys)"
  define h where "h = (2 * unat x) mod 256"
  define N :: nat where "N = 256 ^ n"
  define q where "q = (2 * unat x) div 256"
  have vlt: "v < N" unfolding v_def n_def N_def by (rule be_value_less)
  have hle: "h \<le> 254" unfolding h_def by (rule twice_mod_256)
  have carry: "unat y div 128 = (2 * v) div N"
    unfolding v_def N_def n_def by (rule top_bit_carry)
  have IH: "be_value (shl_bytes (y # ys)) = (2 * v) mod N"
    using 3 by (simp only: v_def n_def N_def)
  have "be_value (shl_bytes (x # y # ys)) = (h + unat y div 128) * N + (2 * v) mod N"
    by (simp only: shl_bytes.simps be_value.simps unat_shl_or length_shl_bytes IH h_def N_def n_def)
  also have "\<dots> = h * N + 2 * v"
    by (simp add: carry algebra_simps)
  also have "\<dots> = (2 * be_value (x # y # ys)) mod 256 ^ length (x # y # ys)"
  proof -
    have lt: "h * N + 2 * v < 256 * N"
    proof -
      have "h * N \<le> 254 * N" using hle by simp
      moreover have "2 * v < 2 * N" using vlt by simp
      ultimately show ?thesis by linarith
    qed
    have "2 * be_value (x # y # ys) = (2 * unat x) * N + 2 * v"
      by (simp add: v_def N_def n_def algebra_simps)
    also have "2 * unat x = 256 * q + h"
      unfolding q_def h_def by (rule mult_div_mod_eq [symmetric])
    finally have "2 * be_value (x # y # ys) = (h * N + 2 * v) + q * (256 * N)"
      by (simp add: algebra_simps)
    then have "(2 * be_value (x # y # ys)) mod (256 * N) = (h * N + 2 * v) mod (256 * N)"
      by simp
    also have "\<dots> = h * N + 2 * v" using lt by simp
    finally show ?thesis by (simp add: N_def n_def)
  qed
  finally show ?case .
qed

lemma spec_shiftLeft1_eq: "length L = 16 \<Longrightarrow> spec_shiftLeft1 L = shl_bytes L"
proof -
  assume len: "length L = 16"
  have "be_bytes (length (shl_bytes L)) (be_value (shl_bytes L)) = shl_bytes L"
    by (rule be_bytes_be_value)
  then have "be_bytes 16 ((2 * be_value L) mod 256 ^ 16) = shl_bytes L"
    by (simp only: length_shl_bytes be_value_shl_bytes len)
  then show ?thesis by (simp add: spec_shiftLeft1_def)
qed

subsection \<open>The exclusive-or loop\<close>

lemma length_xor_loop: "length (xor_loop a dst src) = length dst"
proof (induction a dst src rule: xor_loop.induct)
  case (1 a dst src)
  then show ?case by (subst xor_loop.simps) simp
qed

lemma xor_loop_nth:
  "i < length dst \<Longrightarrow>
   xor_loop a dst src ! i = (if a \<le> i \<and> i < 16 then dst ! i XOR src ! i else dst ! i)"
proof (induction a dst src rule: xor_loop.induct)
  case (1 a dst src)
  show ?case
  proof (cases "a < 16")
    case True
    have "xor_loop a dst src ! i = xor_loop (a + 1) (dst[a := dst ! a XOR src ! a]) src ! i"
      using True by (subst xor_loop.simps) simp
    also have "\<dots> = (if a + 1 \<le> i \<and> i < 16
                      then dst[a := dst ! a XOR src ! a] ! i XOR src ! i
                      else dst[a := dst ! a XOR src ! a] ! i)"
      using "1.IH" [OF True] "1.prems" by simp
    also have "\<dots> = (if a \<le> i \<and> i < 16 then dst ! i XOR src ! i else dst ! i)"
      using True "1.prems" by (cases "a = i") (auto simp: nth_list_update)
    finally show ?thesis .
  next
    case False
    then have "\<not> (a \<le> i \<and> i < 16)" by simp
    moreover have "xor_loop a dst src = dst"
      using False by (subst xor_loop.simps) simp
    ultimately show ?thesis by auto
  qed
qed

lemma xor_loop_eq_xor_bytes:
  assumes "length dst = 16" "length src = 16"
  shows "xor_loop 0 dst src = xor_bytes dst src"
proof (rule nth_equalityI)
  show "length (xor_loop 0 dst src) = length (xor_bytes dst src)"
    using assms by (simp add: length_xor_loop xor_bytes_def)
next
  fix i assume "i < length (xor_loop 0 dst src)"
  then have "i < 16" using assms by (simp add: length_xor_loop)
  then show "xor_loop 0 dst src ! i = xor_bytes dst src ! i"
    using assms by (simp add: xor_loop_nth xor_bytes_def)
qed

lemma buf_write_all: "length bs = length buf \<Longrightarrow> buf_write buf 0 bs = bs"
  by (simp add: buf_write_def)

subsection \<open>CMAC\<close>

lemma and_0x80_iff: "((b::u8) AND 0x80 \<noteq> 0) \<longleftrightarrow> 128 \<le> unat b"
proof -
  have "(0x80::u8) = 2 ^ 7" by simp
  then have "(b AND 0x80 \<noteq> 0) \<longleftrightarrow> bit b 7"
    by (simp only: and_exp_eq_0_iff_not_bit) simp
  also have "\<dots> \<longleftrightarrow> bit (unat b) 7"
    by (simp add: bit_unsigned_iff)
  also have "\<dots> \<longleftrightarrow> odd (unat b div 128)"
    by (simp add: bit_iff_odd)
  also have "\<dots> \<longleftrightarrow> 128 \<le> unat b"
  proof
    assume "odd (unat b div 128)"
    then have "unat b div 128 \<noteq> 0" by (metis even_zero)
    then show "128 \<le> unat b" by simp
  next
    assume "128 \<le> unat b"
    moreover have "unat b < 256" by (rule unat_u8_less)
    ultimately have "unat b div 128 = 1" by simp
    then show "odd (unat b div 128)" by simp
  qed
  finally show ?thesis .
qed

lemma msb_first_byte:
  assumes "length L = 16"
  shows "(L ! 0 AND 0x80 \<noteq> 0) \<longleftrightarrow> 2 ^ 127 \<le> be_value L"
proof -
  obtain b bs where L: "L = b # bs" and bs: "length bs = 15"
    using assms by (cases L) auto
  define M :: nat where "M = 256 ^ 15"
  have r: "be_value bs < M" using be_value_less [of bs] bs by (simp add: M_def)
  have v: "be_value L = unat b * M + be_value bs" by (simp add: L bs M_def)
  have "128 \<le> unat b \<longleftrightarrow> 128 * M \<le> be_value L"
  proof
    assume "128 \<le> unat b"
    then have "128 * M \<le> unat b * M" by simp
    then show "128 * M \<le> be_value L" unfolding v by (rule trans_le_add1)
  next
    assume hi: "128 * M \<le> be_value L"
    show "128 \<le> unat b"
    proof (rule ccontr)
      assume "\<not> 128 \<le> unat b"
      then have "unat b \<le> 127" by simp
      then have "unat b * M \<le> 127 * M" by simp
      then have "unat b * M + be_value bs < 127 * M + M" using r by (rule add_le_less_mono)
      then have "be_value L < 128 * M" unfolding v by simp
      with hi show False by simp
    qed
  qed
  moreover have "128 * M = 2 ^ 127" by (simp add: M_def)
  ultimately show ?thesis by (simp add: and_0x80_iff L)
qed

lemma nth_last_eq: "length xs = Suc n \<Longrightarrow> xs[n := v] = butlast xs @ [v]"
  by (induction xs arbitrary: n) (auto split: nat.splits simp: butlast_conv_take)

lemma length_spec_shiftLeft1: "length (spec_shiftLeft1 L) = 16"
  by (simp add: spec_shiftLeft1_def length_be_bytes)

lemma length_spec_K1: "length (spec_K1 L) = 16"
  by (simp add: spec_K1_def length_spec_shiftLeft1)

lemma cmac_key_k1:
  assumes ok: "cipher_ok B" and key: "length aes_key = 16"
    and k1: "length k1 = 16" and k2: "length k2 = 16"
  shows "fst (fst (cmac_key B aes_key k1 k2)) = spec_K1 (cipher_encrypt B aes_key (replicate 16 0))"
proof -
  define L where "L = cipher_encrypt B aes_key (replicate 16 0)"
  have lenL: "length L = 16" using ok by (simp add: L_def cipher_ok_def)
  have wr: "buf_write (replicate 16 0) 0 (take 16 L) = L"
    using lenL by (simp add: buf_write_def)
  have sh: "shl_128 k1 L = spec_shiftLeft1 L"
    using k1 lenL by (simp add: shl_128_eq_shl_bytes spec_shiftLeft1_eq)
  have len_sh: "length (spec_shiftLeft1 L) = Suc 15"
    by (simp add: length_spec_shiftLeft1)
  have upd: "(spec_shiftLeft1 L)[15 := spec_shiftLeft1 L ! 15 XOR 0x87]
             = butlast (spec_shiftLeft1 L) @ [last (spec_shiftLeft1 L) XOR 0x87]"
  proof -
    have "spec_shiftLeft1 L \<noteq> []" using len_sh by auto
    then have "last (spec_shiftLeft1 L) = spec_shiftLeft1 L ! 15"
      using len_sh by (simp add: last_conv_nth)
    then show ?thesis using nth_last_eq [OF len_sh] by simp
  qed
  have "fst (fst (cmac_key B aes_key k1 k2)) =
        (if L ! 0 AND 0x80 \<noteq> 0
         then (spec_shiftLeft1 L)[15 := spec_shiftLeft1 L ! 15 XOR 0x87]
         else spec_shiftLeft1 L)"
    using key by (simp add: cmac_key_def Let_def L_def [symmetric] wr sh)
  also have "\<dots> = spec_K1 L"
    by (simp only: msb_first_byte [OF lenL] upd spec_K1_def)
  finally show ?thesis by (simp only: L_def)
qed

subsection \<open>AES-G3\<close>

lemma spec_SEED_eq: "spec_SEED = aesg3_seed"
proof -
  have "be_value aesg3_seed = 0x7B103C5DCB08C4E51A27B01799053BD9"
    by (simp add: aesg3_seed_def)
  moreover have "length aesg3_seed = 16"
    by (simp add: aesg3_seed_def)
  ultimately show ?thesis
    using be_bytes_be_value [of aesg3_seed] by (simp add: spec_SEED_def)
qed

lemma aesg3_seed_inc: "aesg3_seed[15 := aesg3_seed ! 15 + inc] = spec_seed inc"
  by (simp add: spec_seed_def spec_SEED_eq) (simp add: aesg3_seed_def)

lemma length_spec_seed: "length (spec_seed inc) = 16"
  by (simp add: spec_seed_def spec_SEED_eq) (simp add: aesg3_seed_def)

lemma aesg3_correct:
  assumes "cipher_ok B" and "length src_key = 16" and "length dst_key = 16"
  shows "aesg3 B src_key dst_key inc =
           (spec_aesg3 (cipher_decrypt B) src_key inc,
            [Call_cipher_decrypt src_key (spec_seed inc)])"
proof -
  define T where "T = cipher_decrypt B src_key (spec_seed inc)"
  have lenT: "length T = 16"
    using assms(1) by (simp add: T_def cipher_ok_def length_spec_seed)
  have wr: "buf_write dst_key 0 (take 16 T) = T"
    using lenT assms(3) by (simp add: buf_write_def)
  have "xor_loop 0 T (spec_seed inc) = xor_bytes T (spec_seed inc)"
    using lenT length_spec_seed by (rule xor_loop_eq_xor_bytes)
  then show ?thesis
    using assms(2)
    by (simp add: aesg3_def Let_def aesg3_seed_inc T_def [symmetric] wr spec_aesg3_def)
qed

lemma aesg3_opt_correct:
  assumes "cipher_ok B" and "length D = 16" and "out_buf_ok out"
  shows "aesg3_opt B D out inc =
           (requested out (spec_aesg3 (cipher_decrypt B) D inc), spec_aesg3_calls D out inc)"
  using assms
  by (cases out) (simp_all add: aesg3_opt_def requested_def spec_aesg3_calls_def out_buf_ok_def aesg3_correct)

subsection \<open>Verification\<close>

lemma lnot_cases: "lnot e = 0 \<or> lnot e = 1"
  by (simp add: lnot_def)

lemma gcry_mpi_scan_exact: "length bs = n \<Longrightarrow> gcry_mpi_scan bs n = be_value bs"
  by (simp add: gcry_mpi_scan_def)

lemma aacs_sexp_sha1_eq:
  assumes "hash_ok B"
  shows "aacs_sexp_sha1 B block len =
           (sexp_build B (Sexp_data (be_value (md_hash_buffer B (take len block)))),
            Sexp_data (be_value (md_hash_buffer B (take len block))),
            [Call_md_hash_buffer (take len block),
             Call_sexp_build (Sexp_data (be_value (md_hash_buffer B (take len block))))])"
proof -
  define h where "h = md_hash_buffer B (take len block)"
  have len: "length h = 20" using assms by (simp add: hash_ok_def h_def)
  then have "buf_write (replicate 20 0) 0 (take 20 h) = h"
    by (simp add: buf_write_def)
  then have "gcry_mpi_scan (buf_write (replicate 20 0) 0 (take 20 h)) 20 = be_value h"
    using len by (simp add: gcry_mpi_scan_def)
  then show ?thesis
    by (simp add: aacs_sexp_sha1_def Let_def h_def [symmetric])
qed

lemma aacs_sexp_signature_eq:
  assumes "40 \<le> length signature"
  shows "aacs_sexp_signature B signature =
           (sexp_build B (Sexp_sig_val (be_value (take 20 (take 40 signature)))
                                       (be_value (drop 20 (take 40 signature)))),
            Sexp_sig_val (be_value (take 20 (take 40 signature)))
                         (be_value (drop 20 (take 40 signature))),
            [Call_sexp_build (Sexp_sig_val (be_value (take 20 (take 40 signature)))
                                           (be_value (drop 20 (take 40 signature))))])"
proof -
  have "take 20 (drop 20 signature) = drop 20 (take 40 signature)"
    by (simp add: drop_take)
  then show ?thesis
    by (simp add: aacs_sexp_signature_def Let_def gcry_mpi_scan_def)
qed

lemma aacs_sexp_key_public_eq:
  assumes "length q_x = 20" and "length q_y = 20"
  shows "aacs_sexp_key B q_x q_y None =
           (sexp_build B (Sexp_key ''public-key''
              (AACS_EC_p, AACS_EC_a, AACS_EC_b, AACS_EC_g, AACS_EC_n) ([0x04] @ q_x @ q_y) None),
            Sexp_key ''public-key''
              (AACS_EC_p, AACS_EC_a, AACS_EC_b, AACS_EC_g, AACS_EC_n) ([0x04] @ q_x @ q_y) None,
            [Call_sexp_build (Sexp_key ''public-key''
              (AACS_EC_p, AACS_EC_a, AACS_EC_b, AACS_EC_g, AACS_EC_n) ([0x04] @ q_x @ q_y) None)])"
  using assms by (simp add: aacs_sexp_key_def Let_def)

lemma aacs_verify_spec:
  assumes "hash_ok B" and "length q_x = 20" and "length q_y = 20"
    and "40 \<le> length signature"
  shows "lnot (fst (aacs_verify B signature q_x q_y data len)) =
           (if spec_verify B (take 40 signature) q_x q_y (take len data) then 1 else 0)"
  unfolding aacs_verify_def aacs_sexp_key_public_eq [OF assms(2,3)]
    aacs_sexp_sha1_eq [OF assms(1)] aacs_sexp_signature_eq [OF assms(4)]
  by (simp add: spec_verify_def lnot_def Let_def)

subsection \<open>Certificates\<close>

lemma MKINT_BE16_be_value:
  assumes "4 \<le> length cert"
  shows "MKINT_BE16 (drop 2 cert) = be_value (take 2 (drop 2 cert))"
proof -
  obtain a b c d rest where "cert = a # b # c # d # rest"
    using assms by (cases cert; cases "tl cert"; cases "tl (tl cert)"; cases "tl (tl (tl cert))") auto
  then show ?thesis by (simp add: MKINT_BE16_def)
qed

lemma fst_crypto_aacs_verify_cert_cases:
  "fst (crypto_aacs_verify_cert B cert) = 0 \<or> fst (crypto_aacs_verify_cert B cert) = 1"
  using lnot_cases
  by (simp add: crypto_aacs_verify_cert_def crypto_aacs_verify_aacsla_def Let_def)

subsection \<open>Shortest encodings\<close>

lemma mpi_bytes_0: "mpi_bytes 0 = []"
  by (simp add: mpi_bytes.simps)

lemma mpi_bytes_pos: "0 < n \<Longrightarrow> mpi_bytes n = mpi_bytes (n div 256) @ [of_nat (n mod 256)]"
  by (subst mpi_bytes.simps) simp

lemma unat_of_nat_mod_256: "unat (of_nat (n mod 256) :: u8) = n mod 256"
  by (simp add: unat_of_nat)

lemma be_value_mpi_bytes: "be_value (mpi_bytes n) = n"
proof (induction n rule: mpi_bytes.induct)
  case (1 n)
  show ?case
  proof (cases "n = 0")
    case True
    then show ?thesis by (simp add: mpi_bytes_0)
  next
    case False
    then have "be_value (mpi_bytes n) = be_value (mpi_bytes (n div 256)) * 256 + n mod 256"
      by (simp add: mpi_bytes_pos be_value_append unat_of_nat_mod_256 del: of_nat_mod)
    also have "\<dots> = n div 256 * 256 + n mod 256" using 1 False by simp
    finally show ?thesis by simp
  qed
qed

lemma length_mpi_bytes_le_iff: "length (mpi_bytes n) \<le> k \<longleftrightarrow> n < 256 ^ k"
proof (induction n arbitrary: k rule: mpi_bytes.induct)
  case (1 n)
  show ?case
  proof (cases "n = 0")
    case True
    then show ?thesis by (simp add: mpi_bytes_0)
  next
    case False
    show ?thesis
    proof (cases k)
      case 0
      then show ?thesis using False by (simp add: mpi_bytes_pos)
    next
      case (Suc j)
      have "length (mpi_bytes n) \<le> Suc j \<longleftrightarrow> length (mpi_bytes (n div 256)) \<le> j"
        using False by (simp add: mpi_bytes_pos)
      also have "\<dots> \<longleftrightarrow> n div 256 < 256 ^ j" using 1 False by simp
      also have "\<dots> \<longleftrightarrow> n < 256 ^ Suc j"
        by (simp add: div_less_iff_less_mult mult.commute)
      finally show ?thesis using Suc by simp
    qed
  qed
qed

lemma length_mpi_bytes_less_16: "length (mpi_bytes n) < 16 \<longleftrightarrow> n < 2 ^ 120"
proof -
  have "length (mpi_bytes n) < 16 \<longleftrightarrow> length (mpi_bytes n) \<le> 15" by auto
  also have "\<dots> \<longleftrightarrow> n < 256 ^ 15" by (rule length_mpi_bytes_le_iff)
  also have "(256::nat) ^ 15 = 2 ^ 120" by simp
  finally show ?thesis .
qed

subsection \<open>The bus key\<close>

lemma crypto_create_bus_key_eq:
  "crypto_create_bus_key E priv_key drive_key_point bus_key =
     (let x = bus_key_q_x E priv_key drive_key_point;
          n = length (mpi_bytes x)
      in if 16 \<le> n \<and> n \<le> 100
         then Inr (buf_write bus_key 0 (drop (n - 16) (mpi_bytes x)))
         else Inl (Out_of_bounds (int (if n \<le> 100 then n else 0) - 16)))"
proof -
  define x where "x = bus_key_q_x E priv_key drive_key_point"
  define n where "n = length (mpi_bytes x)"
  have pr: "gcry_mpi_print (replicate 100 0) 0 100 0 x =
              (if n \<le> 100 then (0, mpi_bytes x @ replicate (100 - n) 0, n)
               else (GPG_ERR_TOO_SHORT, replicate 100 0, 0))"
    by (simp add: gcry_mpi_print_def Let_def n_def buf_write_def)
  have rd: "buf_read (mpi_bytes x @ replicate (100 - n) 0) (int n - 16) 16 =
              (if 16 \<le> n then Inr (drop (n - 16) (mpi_bytes x)) else Inl (Out_of_bounds (int n - 16)))"
    if "n \<le> 100"
  proof (cases "16 \<le> n")
    case True
    then have "nat (int n - 16) = n - 16" by simp
    then show ?thesis using True that by (simp add: buf_read_def n_def)
  next
    case False
    then show ?thesis by (simp add: buf_read_def)
  qed
  have rd0: "buf_read (replicate 100 0) (int 0 - 16) 16 = Inl (Out_of_bounds (int 0 - 16))"
    by (simp add: buf_read_def)
  have "crypto_create_bus_key E priv_key drive_key_point bus_key =
          (case buf_read (fst (snd (gcry_mpi_print (replicate 100 0) 0 100 0 x)))
                  (int (snd (snd (gcry_mpi_print (replicate 100 0) 0 100 0 x))) - 16) 16 of
             Inl e \<Rightarrow> Inl e
           | Inr bs \<Rightarrow> Inr (buf_write bus_key 0 bs))"
    by (simp add: crypto_create_bus_key_def bus_key_q_x_def x_def Let_def)
  also have "\<dots> = (if 16 \<le> n \<and> n \<le> 100
         then Inr (buf_write bus_key 0 (drop (n - 16) (mpi_bytes x)))
         else Inl (Out_of_bounds (int (if n \<le> 100 then n else 0) - 16)))"
    using rd rd0 by (simp add: pr)
  finally show ?thesis by (simp add: x_def n_def Let_def)
qed

subsection \<open>Modular inverses\<close>

lemma inv_mod_loop_invariant:
  assumes "int r0 mod int p = (t0 * int x) mod int p"
    and "int r1 mod int p = (t1 * int x) mod int p"
  shows "fst (inv_mod_loop r0 r1 t0 t1) = gcd r0 r1 \<and>
         int (fst (inv_mod_loop r0 r1 t0 t1)) mod int p
           = (snd (inv_mod_loop r0 r1 t0 t1) * int x) mod int p"
  using assms
proof (induction r0 r1 t0 t1 rule: inv_mod_loop.induct)
  case (1 r0 r1 t0 t1)
  show ?case
  proof (cases "r1 = 0")
    case True
    then show ?thesis using "1.prems" by (simp add: inv_mod_loop.simps)
  next
    case False
    define q where "q = int (r0 div r1)"
    have "int (r0 mod r1) = int r0 - q * int r1"
      by (simp add: q_def zmod_int zdiv_int minus_mult_div_eq_mod [symmetric] algebra_simps)
    then have "int (r0 mod r1) mod int p = (int r0 - q * int r1) mod int p" by simp
    also have "\<dots> = (int r0 mod int p - (q * (int r1 mod int p)) mod int p) mod int p"
      by (simp add: mod_diff_eq mod_mult_right_eq)
    also have "\<dots> = ((t0 * int x) mod int p - (q * ((t1 * int x) mod int p)) mod int p) mod int p"
      by (simp only: "1.prems")
    also have "\<dots> = ((t0 - q * t1) * int x) mod int p"
      by (simp add: mod_diff_eq mod_mult_right_eq algebra_simps)
    finally have inv: "int (r0 mod r1) mod int p = ((t0 - int (r0 div r1) * t1) * int x) mod int p"
      by (simp add: q_def)
    have step: "inv_mod_loop r0 r1 t0 t1 = inv_mod_loop r1 (r0 mod r1) t1 (t0 - int (r0 div r1) * t1)"
      using False by (subst inv_mod_loop.simps) simp
    have geq: "gcd r1 (r0 mod r1) = gcd r0 r1"
      by (metis gcd.commute gcd_red_nat)
    define L where "L = inv_mod_loop r1 (r0 mod r1) t1 (t0 - int (r0 div r1) * t1)"
    note ih = "1.IH" [OF False "1.prems"(2) inv, folded L_def]
    have a: "fst L = gcd r1 (r0 mod r1)" by (rule ih [THEN conjunct1])
    have b: "int (fst L) mod int p = (snd L * int x) mod int p" by (rule ih [THEN conjunct2])
    have "fst L = gcd r0 r1" using a geq by (rule trans)
    then show ?thesis unfolding step L_def [symmetric] using b by (rule conjI)
  qed
qed

lemma inv_mod_unique:
  assumes p: "1 < p" and v: "v < p" and xv: "(x * v) mod p = 1"
  shows "inv_mod p x = v"
proof -
  define x' where "x' = x mod p"
  define g where "g = fst (inv_mod_loop p x' 0 1)"
  define t where "t = snd (inv_mod_loop p x' 0 1)"
  have x'v: "(x' * v) mod p = 1"
    using xv by (simp add: x'_def mod_mult_left_eq)
  have inv: "g = gcd p x' \<and> int g mod int p = (t * int x') mod int p"
    unfolding g_def t_def by (rule inv_mod_loop_invariant) simp_all
  have "gcd p x' = 1"
  proof -
    have "gcd p x' dvd p" and "gcd p x' dvd x' * v" by simp_all
    then have "gcd p x' dvd (x' * v) mod p" by (simp add: dvd_mod)
    then show ?thesis using x'v by simp
  qed
  then have g1: "g = 1" using inv by simp
  have "int g mod int p = 1" using g1 p by simp
  with inv [THEN conjunct2] have tx: "(t * int x') mod int p = 1"
    by (rule trans [OF sym])
  have "int v mod int p = ((t * int x') mod int p * int v) mod int p"
    by (simp add: tx)
  also have "\<dots> = (t * (int x' * int v)) mod int p"
    by (simp add: mod_mult_left_eq mult.assoc)
  also have "\<dots> = (t * ((int x' * int v) mod int p)) mod int p"
    by (simp add: mod_mult_right_eq)
  also have "(int x' * int v) mod int p = 1"
    using x'v by (metis of_nat_1 of_nat_mod of_nat_mult)
  finally have "t mod int p = int v"
    using v by simp
  then have "nat (t mod int p) = v" by simp
  moreover have "inv_mod_loop p x' 0 1 = (g, t)" by (simp add: g_def t_def)
  ultimately show ?thesis
    using g1 by (simp add: inv_mod_def x'_def [symmetric])
qed

lemma mod_cert: "r < p \<Longrightarrow> a = q * p + r \<Longrightarrow> a mod p = (r::nat)"
  by simp

lemma inv_mod_cert:
  assumes "1 < p" and "v < p" and "x * v = q * p + 1"
  shows "inv_mod p x = v"
proof -
  have "(x * v) mod p = 1" using assms(1,3) by (rule mod_cert)
  with assms(1,2) show ?thesis by (rule inv_mod_unique)
qed

lemma ec_add_distinct:
  assumes "x1 \<noteq> x2"
    and "inv_mod p (x2 + (p - x1)) = iv"
    and "((y2 + (p - y1)) * iv) mod p = l"
    and "(l * l + (p - x1) + (p - x2)) mod p = x3"
    and "(l * (x1 + (p - x3)) + (p - y1)) mod p = y3"
  shows "ec_add p a (Some (x1, y1)) (Some (x2, y2)) = Some (x3, y3)"
  using assms by (simp add: ec_add_def Let_def)

lemma ec_add_double:
  assumes "(y1 + y1) mod p = r" and "r \<noteq> 0"
    and "inv_mod p (2 * y1) = iv"
    and "((3 * x1 * x1 + a) * iv) mod p = l"
    and "(l * l + (p - x1) + (p - x1)) mod p = x3"
    and "(l * (x1 + (p - x3)) + (p - y1)) mod p = y3"
  shows "ec_add p a (Some (x1, y1)) (Some (x1, y1)) = Some (x3, y3)"
  using assms by (simp add: ec_add_def Let_def)

lemma aacs_2G:
  "ec_add 0x9DC9D81355ECCEB560BDB09EF9EAE7C479A7D7DF 0x9DC9D81355ECCEB560BDB09EF9EAE7C479A7D7DC
     (Some (0x2E64FC22578351E6F4CCA7EB81D0A4BDC54CCEC6, 0x914A25DD05442889DB455C7F23C9A0707F5CBB9))
     (Some (0x2E64FC22578351E6F4CCA7EB81D0A4BDC54CCEC6, 0x914A25DD05442889DB455C7F23C9A0707F5CBB9))
   = (Some (0x536E9C02259B6C862F3D2BEF747BD2CDFAC38735, 0x72B8E4124DE32C82E3F8C1C67DC76D3169D69464))"
proof (rule ec_add_double [where iv = "0x476D48D0AD2986916F27027CB5D666B2903177B6" and l = "0x7C4DACF98BF75FEC9917ACC9EE7C8BD6354AF47B" and r = "0x122944BBA0A885113B68AB8FE479340E0FEB9772"])
  show "(0x914A25DD05442889DB455C7F23C9A0707F5CBB9 + 0x914A25DD05442889DB455C7F23C9A0707F5CBB9) mod 0x9DC9D81355ECCEB560BDB09EF9EAE7C479A7D7DF = (0x122944BBA0A885113B68AB8FE479340E0FEB9772::nat)"
    by (rule mod_cert [where q = "0x0"]) simp_all
  show "(0x122944BBA0A885113B68AB8FE479340E0FEB9772::nat) \<noteq> 0" by simp
  show "inv_mod 0x9DC9D81355ECCEB560BDB09EF9EAE7C479A7D7DF (2 * 0x914A25DD05442889DB455C7F23C9A0707F5CBB9) = 0x476D48D0AD2986916F27027CB5D666B2903177B6"
    by (rule inv_mod_cert [where q = "0x8389B94AA9CF1A67EBDDA5D3825289F63D48455"]) simp_all
  show "((3 * 0x2E64FC22578351E6F4CCA7EB81D0A4BDC54CCEC6 * 0x2E64FC22578351E6F4CCA7EB81D0A4BDC54CCEC6 + 0x9DC9D81355ECCEB560BDB09EF9EAE7C479A7D7DC) * 0x476D48D0AD2986916F27027CB5D666B2903177B6) mod 0x9DC9D81355ECCEB560BDB09EF9EAE7C479A7D7DF = (0x7C4DACF98BF75FEC9917ACC9EE7C8BD6354AF47B::nat)"
    by (rule mod_cert [where q = "0xB6B13BBF368FAA00B5BA88603B8C3B1D7DB970EE691AE0A59163E8B3619116361D476ED6EF721EB"]) simp_all
  show "(0x7C4DACF98BF75FEC9917ACC9EE7C8BD6354AF47B * 0x7C4DACF98BF75FEC9917ACC9EE7C8BD6354AF47B + (0x9DC9D81355ECCEB560BDB09EF9EAE7C479A7D7DF - 0x2E64FC22578351E6F4CCA7EB81D0A4BDC54CCEC6) + (0x9DC9D81355ECCEB560BDB09EF9EAE7C479A7D7DF - 0x2E64FC22578351E6F4CCA7EB81D0A4BDC54CCEC6)) mod 0x9DC9D81355ECCEB560BDB09EF9EAE7C479A7D7DF = (0x536E9C02259B6C862F3D2BEF747BD2CDFAC38735::nat)"
    by (rule mod_cert [where q = "0x61ECA5CBD935FFFE2D8AE331F7F0E48F05789CAA"]) simp_all
  show "(0x7C4DACF98BF75FEC9917ACC9EE7C8BD6354AF47B * (0x2E64FC22578351E6F4CCA7EB81D0A4BDC54CCEC6 + (0x9DC9D81355ECCEB560BDB09EF9EAE7C479A7D7DF - 0x536E9C02259B6C862F3D2BEF747BD2CDFAC38735)) + (0x9DC9D81355ECCEB560BDB09EF9EAE7C479A7D7DF - 0x914A25DD05442889DB455C7F23C9A0707F5CBB9)) mod 0x9DC9D81355ECCEB560BDB09EF9EAE7C479A7D7DF = (0x72B8E4124DE32C82E3F8C1C67DC76D3169D69464::nat)"
    by (rule mod_cert [where q = "0x5F203104B4728D0F0377681703EFC9F98F3F87AE"]) simp_all
qed

lemma aacs_4G:
  "ec_add 0x9DC9D81355ECCEB560BDB09EF9EAE7C479A7D7DF 0x9DC9D81355ECCEB560BDB09EF9EAE7C479A7D7DC
     (Some (0x536E9C02259B6C862F3D2BEF747BD2CDFAC38735, 0x72B8E4124DE32C82E3F8C1C67DC76D3169D69464))
     (Some (0x536E9C02259B6C862F3D2BEF747BD2CDFAC38735, 0x72B8E4124DE32C82E3F8C1C67DC76D3169D69464))
   = (Some (0x78E1977CAF3435CBE1379B52784A2EABD9459727, 0x2FFFA9414D60B686510DA3CCDF77C60D0AF98F6C))"
proof (rule ec_add_double [where iv = "0x6EB3EEC6F381ABB881B816881EB3584A523DF14D" and l = "0xF1708691C0E68363EF7B8ABA9892F1380FEC5C8" and r = "0x47A7F01145D98A506733D2EE01A3F29E5A0550E9"])
  show "(0x72B8E4124DE32C82E3F8C1C67DC76D3169D69464 + 0x72B8E4124DE32C82E3F8C1C67DC76D3169D69464) mod 0x9DC9D81355ECCEB560BDB09EF9EAE7C479A7D7DF = (0x47A7F01145D98A506733D2EE01A3F29E5A0550E9::nat)"
    by (rule mod_cert [where q = "0x1"]) simp_all
  show "(0x47A7F01145D98A506733D2EE01A3F29E5A0550E9::nat) \<noteq> 0" by simp
  show "inv_mod 0x9DC9D81355ECCEB560BDB09EF9EAE7C479A7D7DF (2 * 0x72B8E4124DE32C82E3F8C1C67DC76D3169D69464) = 0x6EB3EEC6F381ABB881B816881EB3584A523DF14D"
    by (rule inv_mod_cert [where q = "0xA0F9DCF6B397461B7871BC1D9D861FC9C8AAF4B9"]) simp_all
  show "((3 * 0x536E9C02259B6C862F3D2BEF747BD2CDFAC38735 * 0x536E9C02259B6C862F3D2BEF747BD2CDFAC38735 + 0x9DC9D81355ECCEB560BDB09EF9EAE7C479A7D7DC) * 0x6EB3EEC6F381ABB881B816881EB3584A523DF14D) mod 0x9DC9D81355ECCEB560BDB09EF9EAE7C479A7D7DF = (0xF1708691C0E68363EF7B8ABA9892F1380FEC5C8::nat)"
    by (rule mod_cert [where q = "0x393B1F61B8F696FA46A01CF50C7C8A05F8FB98A5BD0AE1B6EC51E6F7B40A5A61A674BB50A4EF1F4D"]) simp_all
  show "(0xF1708691C0E68363EF7B8ABA9892F1380FEC5C8 * 0xF1708691C0E68363EF7B8ABA9892F1380FEC5C8 + (0x9DC9D81355ECCEB560BDB09EF9EAE7C479A7D7DF - 0x536E9C02259B6C862F3D2BEF747BD2CDFAC38735) + (0x9DC9D81355ECCEB560BDB09EF9EAE7C479A7D7DF - 0x536E9C02259B6C862F3D2BEF747BD2CDFAC38735)) mod 0x9DC9D81355ECCEB560BDB09EF9EAE7C479A7D7DF = (0x78E1977CAF3435CBE1379B52784A2EABD9459727::nat)"
    by (rule mod_cert [where q = "0x1717023CEC7DEDCE394817F4B0A945AFF422B33"]) simp_all
  show "(0xF1708691C0E68363EF7B8ABA9892F1380FEC5C8 * (0x536E9C02259B6C862F3D2BEF747BD2CDFAC38735 + (0x9DC9D81355ECCEB560BDB09EF9EAE7C479A7D7DF - 0x78E1977CAF3435CBE1379B52784A2EABD9459727)) + (0x9DC9D81355ECCEB560BDB09EF9EAE7C479A7D7DF - 0x72B8E4124DE32C82E3F8C1C67DC76D3169D69464)) mod 0x9DC9D81355ECCEB560BDB09EF9EAE7C479A7D7DF = (0x2FFFA9414D60B686510DA3CCDF77C60D0AF98F6C::nat)"
    by (rule mod_cert [where q = "0xB82308298526C569CE37321F75EE1B940BABCA9"]) simp_all
qed

lemma aacs_8G:
  "ec_add 0x9DC9D81355ECCEB560BDB09EF9EAE7C479A7D7DF 0x9DC9D81355ECCEB560BDB09EF9EAE7C479A7D7DC
     (Some (0x78E1977CAF3435CBE1379B52784A2EABD9459727, 0x2FFFA9414D60B686510DA3CCDF77C60D0AF98F6C))
     (Some (0x78E1977CAF3435CBE1379B52784A2EABD9459727, 0x2FFFA9414D60B686510DA3CCDF77C60D0AF98F6C))
   = (Some (0x1C3FDC47059527C2D6F68E24F9EA7E0D005DDFCE, 0x5E20833288EC1024F5BB73E1479FAC642CEB6CDF))"
proof (rule ec_add_double [where iv = "0x5345E499412C17FD2CBCB7F98F1C63188BD49C77" and l = "0x63D3C3511FFC6FAD54D02A4E758785E368BBA378" and r = "0x5FFF52829AC16D0CA21B4799BEEF8C1A15F31ED8"])
  show "(0x2FFFA9414D60B686510DA3CCDF77C60D0AF98F6C + 0x2FFFA9414D60B686510DA3CCDF77C60D0AF98F6C) mod 0x9DC9D81355ECCEB560BDB09EF9EAE7C479A7D7DF = (0x5FFF52829AC16D0CA21B4799BEEF8C1A15F31ED8::nat)"
    by (rule mod_cert [where q = "0x0"]) simp_all
  show "(0x5FFF52829AC16D0CA21B4799BEEF8C1A15F31ED8::nat) \<noteq> 0" by simp
  show "inv_mod 0x9DC9D81355ECCEB560BDB09EF9EAE7C479A7D7DF (2 * 0x2FFFA9414D60B686510DA3CCDF77C60D0AF98F6C) = 0x5345E499412C17FD2CBCB7F98F1C63188BD49C77"
    by (rule inv_mod_cert [where q = "0x32A9A6D9A4190D66F3B77CB8B9B6540DFE5BD279"]) simp_all
  show "((3 * 0x78E1977CAF3435CBE1379B52784A2EABD9459727 * 0x78E1977CAF3435CBE1379B52784A2EABD9459727 + 0x9DC9D81355ECCEB560BDB09EF9EAE7C479A7D7DC) * 0x5345E499412C17FD2CBCB7F98F1C63188BD49C77) mod 0x9DC9D81355ECCEB560BDB09EF9EAE7C479A7D7DF = (0x63D3C3511FFC6FAD54D02A4E758785E368BBA378::nat)"
    by (rule mod_cert [where q = "0x5A5EEB7FB414C3DCC13265E148001B4F9AAB3127553269CFB9286A1B0754CF49C70DD2329F1B153F"]) simp_all
  show "(0x63D3C3511FFC6FAD54D02A4E758785E368BBA378 * 0x63D3C3511FFC6FAD54D02A4E758785E368BBA378 + (0x9DC9D81355ECCEB560BDB09EF9EAE7C479A7D7DF - 0x78E1977CAF3435CBE1379B52784A2EABD9459727) + (0x9DC9D81355ECCEB560BDB09EF9EAE7C479A7D7DF - 0x78E1977CAF3435CBE1379B52784A2EABD9459727)) mod 0x9DC9D81355ECCEB560BDB09EF9EAE7C479A7D7DF = (0x1C3FDC47059527C2D6F68E24F9EA7E0D005DDFCE::nat)"
    by (rule mod_cert [where q = "0x3F283B414FF0AFF1F6789DD983F627AD71CD5A5E"]) simp_all
  show "(0x63D3C3511FFC6FAD54D02A4E758785E368BBA378 * (0x78E1977CAF3435CBE1379B52784A2EABD9459727 + (0x9DC9D81355ECCEB560BDB09EF9EAE7C479A7D7DF - 0x1C3FDC47059527C2D6F68E24F9EA7E0D005DDFCE)) + (0x9DC9D81355ECCEB560BDB09EF9EAE7C479A7D7DF - 0x2FFFA9414D60B686510DA3CCDF77C60D0AF98F6C)) mod 0x9DC9D81355ECCEB560BDB09EF9EAE7C479A7D7DF = (0x5E20833288EC1024F5BB73E1479FAC642CEB6CDF::nat)"
    by (rule mod_cert [where q = "0x9E6E9B183B159D1E8AB3AA6A66491A019DC1E4AC"]) simp_all
qed

lemma aacs_16G:
  "ec_add 0x9DC9D81355ECCEB560BDB09EF9EAE7C479A7D7DF 0x9DC9D81355ECCEB560BDB09EF9EAE7C479A7D7DC
     (Some (0x1C3FDC47059527C2D6F68E24F9EA7E0D005DDFCE, 0x5E20833288EC1024F5BB73E1479FAC642CEB6CDF))
     (Some (0x1C3FDC47059527C2D6F68E24F9EA7E0D005DDFCE, 0x5E20833288EC1024F5BB73E1479FAC642CEB6CDF))
   = (Some (0x78FC407B3A279992C492C43BC2C34722733B00C5, 0x52478F1D5ED81D8CB53F1D017DFE1767154460D3))"
proof (rule ec_add_double [where iv = "0x98AB7F984E7DD016BE28634DD5045B23827A4E60" and l = "0xCF1A6726FA18F00DC3A6C7E171BB9A10468F073" and r = "0x1E772E51BBEB51948AB9372395547103E02F01DF"])
  show "(0x5E20833288EC1024F5BB73E1479FAC642CEB6CDF + 0x5E20833288EC1024F5BB73E1479FAC642CEB6CDF) mod 0x9DC9D81355ECCEB560BDB09EF9EAE7C479A7D7DF = (0x1E772E51BBEB51948AB9372395547103E02F01DF::nat)"
    by (rule mod_cert [where q = "0x1"]) simp_all
  show "(0x1E772E51BBEB51948AB9372395547103E02F01DF::nat) \<noteq> 0" by simp
  show "inv_mod 0x9DC9D81355ECCEB560BDB09EF9EAE7C479A7D7DF (2 * 0x5E20833288EC1024F5BB73E1479FAC642CEB6CDF) = 0x98AB7F984E7DD016BE28634DD5045B23827A4E60"
    by (rule inv_mod_cert [where q = "0xB625AE0A5792ED40CECDE3797A33A569001238A1"]) simp_all
  show "((3 * 0x1C3FDC47059527C2D6F68E24F9EA7E0D005DDFCE * 0x1C3FDC47059527C2D6F68E24F9EA7E0D005DDFCE + 0x9DC9D81355ECCEB560BDB09EF9EAE7C479A7D7DC) * 0x98AB7F984E7DD016BE28634DD5045B23827A4E60) mod 0x9DC9D81355ECCEB560BDB09EF9EAE7C479A7D7DF = (0xCF1A6726FA18F00DC3A6C7E171BB9A10468F073::nat)"
    by (rule mod_cert [where q = "0x90C6EB722CA7799197F0DAC9C7F51206EA5D15A67E0C822510B2356F8A1E9C9AE60527F2558F713"]) simp_all
  show "(0xCF1A6726FA18F00DC3A6C7E171BB9A10468F073 * 0xCF1A6726FA18F00DC3A6C7E171BB9A10468F073 + (0x9DC9D81355ECCEB560BDB09EF9EAE7C479A7D7DF - 0x1C3FDC47059527C2D6F68E24F9EA7E0D005DDFCE) + (0x9DC9D81355ECCEB560BDB09EF9EAE7C479A7D7DF - 0x1C3FDC47059527C2D6F68E24F9EA7E0D005DDFCE)) mod 0x9DC9D81355ECCEB560BDB09EF9EAE7C479A7D7DF = (0x78FC407B3A279992C492C43BC2C34722733B00C5::nat)"
    by (rule mod_cert [where q = "0x10FD49990927C0F19836C422F06E954979B75BA"]) simp_all
  show "(0xCF1A6726FA18F00DC3A6C7E171BB9A10468F073 * (0x1C3FDC47059527C2D6F68E24F9EA7E0D005DDFCE + (0x9DC9D81355ECCEB560BDB09EF9EAE7C479A7D7DF - 0x78FC407B3A279992C492C43BC2C34722733B00C5)) + (0x9DC9D81355ECCEB560BDB09EF9EAE7C479A7D7DF - 0x5E20833288EC1024F5BB73E1479FAC642CEB6CDF)) mod 0x9DC9D81355ECCEB560BDB09EF9EAE7C479A7D7DF = (0x52478F1D5ED81D8CB53F1D017DFE1767154460D3::nat)"
    by (rule mod_cert [where q = "0x5562448FFFE58FAB53A56BA908D25FB1A1B8C3B"]) simp_all
qed

lemma aacs_17G:
  "ec_add 0x9DC9D81355ECCEB560BDB09EF9EAE7C479A7D7DF 0x9DC9D81355ECCEB560BDB09EF9EAE7C479A7D7DC
     (Some (0x78FC407B3A279992C492C43BC2C34722733B00C5, 0x52478F1D5ED81D8CB53F1D017DFE1767154460D3))
     (Some (0x2E64FC22578351E6F4CCA7EB81D0A4BDC54CCEC6, 0x914A25DD05442889DB455C7F23C9A0707F5CBB9))
   = (Some (0x7356D477AF3775FBAAE56D92CE7EA828EEDDA773, 0x15DA4F23D6968496EC29BC04F9E26A995CBBF6C5))"
proof (rule ec_add_distinct [where iv = "0x42B8F0EF6D8F52B9D0D044A16891EA3A81F2B06F" and l = "0x7246517B1C89F316777C1115545FC42F3096C9B5"])
  show "(0x78FC407B3A279992C492C43BC2C34722733B00C5::nat) \<noteq> 0x2E64FC22578351E6F4CCA7EB81D0A4BDC54CCEC6" by simp
  show "inv_mod 0x9DC9D81355ECCEB560BDB09EF9EAE7C479A7D7DF (0x2E64FC22578351E6F4CCA7EB81D0A4BDC54CCEC6 + (0x9DC9D81355ECCEB560BDB09EF9EAE7C479A7D7DF - 0x78FC407B3A279992C492C43BC2C34722733B00C5)) = 0x42B8F0EF6D8F52B9D0D044A16891EA3A81F2B06F"
    by (rule inv_mod_cert [where q = "0x232E5101DA7FBA71C6CB3A4A7E4C99F848FA73C1"]) simp_all
  show "((0x914A25DD05442889DB455C7F23C9A0707F5CBB9 + (0x9DC9D81355ECCEB560BDB09EF9EAE7C479A7D7DF - 0x52478F1D5ED81D8CB53F1D017DFE1767154460D3)) * 0x42B8F0EF6D8F52B9D0D044A16891EA3A81F2B06F) mod 0x9DC9D81355ECCEB560BDB09EF9EAE7C479A7D7DF = (0x7246517B1C89F316777C1115545FC42F3096C9B5::nat)"
    by (rule mod_cert [where q = "0x23C4FFD1A1E0AA0CDDB44220D21CFD29B0E1350A"]) simp_all
  show "(0x7246517B1C89F316777C1115545FC42F3096C9B5 * 0x7246517B1C89F316777C1115545FC42F3096C9B5 + (0x9DC9D81355ECCEB560BDB09EF9EAE7C479A7D7DF - 0x78FC407B3A279992C492C43BC2C34722733B00C5) + (0x9DC9D81355ECCEB560BDB09EF9EAE7C479A7D7DF - 0x2E64FC22578351E6F4CCA7EB81D0A4BDC54CCEC6)) mod 0x9DC9D81355ECCEB560BDB09EF9EAE7C479A7D7DF = (0x7356D477AF3775FBAAE56D92CE7EA828EEDDA773::nat)"
    by (rule mod_cert [where q = "0x52C2C5782170AF88F8B3F22E6B863B336476E867"]) simp_all
  show "(0x7246517B1C89F316777C1115545FC42F3096C9B5 * (0x78FC407B3A279992C492C43BC2C34722733B00C5 + (0x9DC9D81355ECCEB560BDB09EF9EAE7C479A7D7DF - 0x7356D477AF3775FBAAE56D92CE7EA828EEDDA773)) + (0x9DC9D81355ECCEB560BDB09EF9EAE7C479A7D7DF - 0x52478F1D5ED81D8CB53F1D017DFE1767154460D3)) mod 0x9DC9D81355ECCEB560BDB09EF9EAE7C479A7D7DF = (0x15DA4F23D6968496EC29BC04F9E26A995CBBF6C5::nat)"
    by (rule mod_cert [where q = "0x765D21CFF67A8B312C264614E3ADD99D01AE8C94"]) simp_all
qed

lemma aacs_34G:
  "ec_add 0x9DC9D81355ECCEB560BDB09EF9EAE7C479A7D7DF 0x9DC9D81355ECCEB560BDB09EF9EAE7C479A7D7DC
     (Some (0x7356D477AF3775FBAAE56D92CE7EA828EEDDA773, 0x15DA4F23D6968496EC29BC04F9E26A995CBBF6C5))
     (Some (0x7356D477AF3775FBAAE56D92CE7EA828EEDDA773, 0x15DA4F23D6968496EC29BC04F9E26A995CBBF6C5))
   = (Some (0x7D629DA7C74EF6765DA1F4353E39BD536E4DE40, 0x86C02DF147977391093EC8623AC087BABCD8B968))"
proof (rule ec_add_double [where iv = "0x32FE003A0C03E699BA6533F09FF97DF0739AF1CB" and l = "0x43266E5F73B74D1C964DF4993555505C6867D824" and r = "0x2BB49E47AD2D092DD8537809F3C4D532B977ED8A"])
  show "(0x15DA4F23D6968496EC29BC04F9E26A995CBBF6C5 + 0x15DA4F23D6968496EC29BC04F9E26A995CBBF6C5) mod 0x9DC9D81355ECCEB560BDB09EF9EAE7C479A7D7DF = (0x2BB49E47AD2D092DD8537809F3C4D532B977ED8A::nat)"
    by (rule mod_cert [where q = "0x0"]) simp_all
  show "(0x2BB49E47AD2D092DD8537809F3C4D532B977ED8A::nat) \<noteq> 0" by simp
  show "inv_mod 0x9DC9D81355ECCEB560BDB09EF9EAE7C479A7D7DF (2 * 0x15DA4F23D6968496EC29BC04F9E26A995CBBF6C5) = 0x32FE003A0C03E699BA6533F09FF97DF0739AF1CB"
    by (rule inv_mod_cert [where q = "0xE1FCDE34C08856AEB83D19563BA87C4FC705B33"]) simp_all
  show "((3 * 0x7356D477AF3775FBAAE56D92CE7EA828EEDDA773 * 0x7356D477AF3775FBAAE56D92CE7EA828EEDDA773 + 0x9DC9D81355ECCEB560BDB09EF9EAE7C479A7D7DC) * 0x32FE003A0C03E699BA6533F09FF97DF0739AF1CB) mod 0x9DC9D81355ECCEB560BDB09EF9EAE7C479A7D7DF = (0x43266E5F73B74D1C964DF4993555505C6867D824::nat)"
    by (rule mod_cert [where q = "0x32616FEF25DA3557581F605FCD82C2AC21DC2F151793F300AF12E0D97A22C87D7665AFA372CFC5C7"]) simp_all
  show "(0x43266E5F73B74D1C964DF4993555505C6867D824 * 0x43266E5F73B74D1C964DF4993555505C6867D824 + (0x9DC9D81355ECCEB560BDB09EF9EAE7C479A7D7DF - 0x7356D477AF3775FBAAE56D92CE7EA828EEDDA773) + (0x9DC9D81355ECCEB560BDB09EF9EAE7C479A7D7DF - 0x7356D477AF3775FBAAE56D92CE7EA828EEDDA773)) mod 0x9DC9D81355ECCEB560BDB09EF9EAE7C479A7D7DF = (0x7D629DA7C74EF6765DA1F4353E39BD536E4DE40::nat)"
    by (rule mod_cert [where q = "0x1C93BDD5B0141F718FAF9DD5015D95EDABFC4D58"]) simp_all
  show "(0x43266E5F73B74D1C964DF4993555505C6867D824 * (0x7356D477AF3775FBAAE56D92CE7EA828EEDDA773 + (0x9DC9D81355ECCEB560BDB09EF9EAE7C479A7D7DF - 0x7D629DA7C74EF6765DA1F4353E39BD536E4DE40)) + (0x9DC9D81355ECCEB560BDB09EF9EAE7C479A7D7DF - 0x15DA4F23D6968496EC29BC04F9E26A995CBBF6C5)) mod 0x9DC9D81355ECCEB560BDB09EF9EAE7C479A7D7DF = (0x86C02DF147977391093EC8623AC087BABCD8B968::nat)"
    by (rule mod_cert [where q = "0x70E66AB31070AC93F7665273CA8881D46C39F106"]) simp_all
qed

lemma aacs_68G:
  "ec_add 0x9DC9D81355ECCEB560BDB09EF9EAE7C479A7D7DF 0x9DC9D81355ECCEB560BDB09EF9EAE7C479A7D7DC
     (Some (0x7D629DA7C74EF6765DA1F4353E39BD536E4DE40, 0x86C02DF147977391093EC8623AC087BABCD8B968))
     (Some (0x7D629DA7C74EF6765DA1F4353E39BD536E4DE40, 0x86C02DF147977391093EC8623AC087BABCD8B968))
   = (Some (0x4FA13EB14E062D5C7A82F68EF6801C367C804D6B, 0xDF141DEE8AD3C27C57C4F512C6ADD8509A9AD61))"
proof (rule ec_add_double [where iv = "0x505CF20D48B77D54512EC9B55F90775CBAA4C86C" and l = "0x3B3B83227BD62C92294C7732665D67862753BECC" and r = "0x6FB683CF3942186CB1BFE0257B9627B100099AF1"])
  show "(0x86C02DF147977391093EC8623AC087BABCD8B968 + 0x86C02DF147977391093EC8623AC087BABCD8B968) mod 0x9DC9D81355ECCEB560BDB09EF9EAE7C479A7D7DF = (0x6FB683CF3942186CB1BFE0257B9627B100099AF1::nat)"
    by (rule mod_cert [where q = "0x1"]) simp_all
  show "(0x6FB683CF3942186CB1BFE0257B9627B100099AF1::nat) \<noteq> 0" by simp
  show "inv_mod 0x9DC9D81355ECCEB560BDB09EF9EAE7C479A7D7DF (2 * 0x86C02DF147977391093EC8623AC087BABCD8B968) = 0x505CF20D48B77D54512EC9B55F90775CBAA4C86C"
    by (rule inv_mod_cert [where q = "0x89426CAF1ECF5F69E8747963D846F49C78476421"]) simp_all
  show "((3 * 0x7D629DA7C74EF6765DA1F4353E39BD536E4DE40 * 0x7D629DA7C74EF6765DA1F4353E39BD536E4DE40 + 0x9DC9D81355ECCEB560BDB09EF9EAE7C479A7D7DC) * 0x505CF20D48B77D54512EC9B55F90775CBAA4C86C) mod 0x9DC9D81355ECCEB560BDB09EF9EAE7C479A7D7DF = (0x3B3B83227BD62C92294C7732665D67862753BECC::nat)"
    by (rule mod_cert [where q = "0x5DD53AA87796B40DEA0D14DAF8DB80FF5318B8A35C810DD5DDED04540798326830436048415E7C"]) simp_all
  show "(0x3B3B83227BD62C92294C7732665D67862753BECC * 0x3B3B83227BD62C92294C7732665D67862753BECC + (0x9DC9D81355ECCEB560BDB09EF9EAE7C479A7D7DF - 0x7D629DA7C74EF6765DA1F4353E39BD536E4DE40) + (0x9DC9D81355ECCEB560BDB09EF9EAE7C479A7D7DF - 0x7D629DA7C74EF6765DA1F4353E39BD536E4DE40)) mod 0x9DC9D81355ECCEB560BDB09EF9EAE7C479A7D7DF = (0x4FA13EB14E062D5C7A82F68EF6801C367C804D6B::nat)"
    by (rule mod_cert [where q = "0x163C418D3ABA88C96B8EB7A8EF3E89A7B11B5FFD"]) simp_all
  show "(0x3B3B83227BD62C92294C7732665D67862753BECC * (0x7D629DA7C74EF6765DA1F4353E39BD536E4DE40 + (0x9DC9D81355ECCEB560BDB09EF9EAE7C479A7D7DF - 0x4FA13EB14E062D5C7A82F68EF6801C367C804D6B)) + (0x9DC9D81355ECCEB560BDB09EF9EAE7C479A7D7DF - 0x86C02DF147977391093EC8623AC087BABCD8B968)) mod 0x9DC9D81355ECCEB560BDB09EF9EAE7C479A7D7DF = (0xDF141DEE8AD3C27C57C4F512C6ADD8509A9AD61::nat)"
    by (rule mod_cert [where q = "0x204828888E2912E87E680A28129E937C599E703A"]) simp_all
qed

lemma aacs_69G:
  "ec_add 0x9DC9D81355ECCEB560BDB09EF9EAE7C479A7D7DF 0x9DC9D81355ECCEB560BDB09EF9EAE7C479A7D7DC
     (Some (0x4FA13EB14E062D5C7A82F68EF6801C367C804D6B, 0xDF141DEE8AD3C27C57C4F512C6ADD8509A9AD61))
     (Some (0x2E64FC22578351E6F4CCA7EB81D0A4BDC54CCEC6, 0x914A25DD05442889DB455C7F23C9A0707F5CBB9))
   = (Some (0x975C0E5D12CA2E594A18BDAFCECF02D4587E0373, 0x9F6CD801103A12FE2E442C635146B24369CEDA))"
proof (rule ec_add_distinct [where iv = "0x245E9D72C42CC0B5ED6BD2F4DC3B3EDF1B86571E" and l = "0x6C0988C28779DC625C5D3DFBDD14A60CC9487F19"])
  show "(0x4FA13EB14E062D5C7A82F68EF6801C367C804D6B::nat) \<noteq> 0x2E64FC22578351E6F4CCA7EB81D0A4BDC54CCEC6" by simp
  show "inv_mod 0x9DC9D81355ECCEB560BDB09EF9EAE7C479A7D7DF (0x2E64FC22578351E6F4CCA7EB81D0A4BDC54CCEC6 + (0x9DC9D81355ECCEB560BDB09EF9EAE7C479A7D7DF - 0x4FA13EB14E062D5C7A82F68EF6801C367C804D6B)) = 0x245E9D72C42CC0B5ED6BD2F4DC3B3EDF1B86571E"
    by (rule inv_mod_cert [where q = "0x1CB57EFEA4B8F870BDF2EF2D6C8C788EA6483A95"]) simp_all
  show "((0x914A25DD05442889DB455C7F23C9A0707F5CBB9 + (0x9DC9D81355ECCEB560BDB09EF9EAE7C479A7D7DF - 0xDF141DEE8AD3C27C57C4F512C6ADD8509A9AD61)) * 0x245E9D72C42CC0B5ED6BD2F4DC3B3EDF1B86571E) mod 0x9DC9D81355ECCEB560BDB09EF9EAE7C479A7D7DF = (0x6C0988C28779DC625C5D3DFBDD14A60CC9487F19::nat)"
    by (rule mod_cert [where q = "0x233FBC0A45734DEE332BFAE9753393C39AF382C7"]) simp_all
  show "(0x6C0988C28779DC625C5D3DFBDD14A60CC9487F19 * 0x6C0988C28779DC625C5D3DFBDD14A60CC9487F19 + (0x9DC9D81355ECCEB560BDB09EF9EAE7C479A7D7DF - 0x4FA13EB14E062D5C7A82F68EF6801C367C804D6B) + (0x9DC9D81355ECCEB560BDB09EF9EAE7C479A7D7DF - 0x2E64FC22578351E6F4CCA7EB81D0A4BDC54CCEC6)) mod 0x9DC9D81355ECCEB560BDB09EF9EAE7C479A7D7DF = (0x975C0E5D12CA2E594A18BDAFCECF02D4587E0373::nat)"
    by (rule mod_cert [where q = "0x49F9062CD142BAF0A986DF26BA7CE1CAC300BCD5"]) simp_all
  show "(0x6C0988C28779DC625C5D3DFBDD14A60CC9487F19 * (0x4FA13EB14E062D5C7A82F68EF6801C367C804D6B + (0x9DC9D81355ECCEB560BDB09EF9EAE7C479A7D7DF - 0x975C0E5D12CA2E594A18BDAFCECF02D4587E0373)) + (0x9DC9D81355ECCEB560BDB09EF9EAE7C479A7D7DF - 0xDF141DEE8AD3C27C57C4F512C6ADD8509A9AD61)) mod 0x9DC9D81355ECCEB560BDB09EF9EAE7C479A7D7DF = (0x9F6CD801103A12FE2E442C635146B24369CEDA::nat)"
    by (rule mod_cert [where q = "0x3AEC93ABCC9122F2E8E0ABAAC4E360896B416DBD"]) simp_all
qed

subsection \<open>The curve constants\<close>

lemma aacs_curve_init_eq:
  "aacs_curve_init =
     \<lparr>ec_p = AACS_EC_p, ec_a = AACS_EC_a, ec_b = AACS_EC_b, ec_n = AACS_EC_n,
      ec_G = \<lparr>pt_x = AACS_EC_G_x, pt_y = AACS_EC_G_y, pt_z = 1\<rparr>\<rparr>"
  by (simp add: aacs_curve_init_def gcry_mpi_scan_def AACS_EC_p_def AACS_EC_a_def AACS_EC_b_def
      AACS_EC_n_def AACS_EC_G_x_def AACS_EC_G_y_def)

lemma ec_scalar_mult_0: "ec_scalar_mult p a 0 P = None"
  by (simp add: ec_scalar_mult.simps)

lemma ec_scalar_mult_1: "ec_scalar_mult p a 1 P = P"
  by (subst ec_scalar_mult.simps) (simp add: ec_scalar_mult_0 ec_add_def)

lemma ec_scalar_mult_even:
  assumes "0 < k" and "n = 2 * k"
    and "ec_scalar_mult p a k P = H" and "ec_add p a H H = D"
  shows "ec_scalar_mult p a n P = D"
  using assms by (subst ec_scalar_mult.simps) (simp add: Let_def)

lemma ec_scalar_mult_odd:
  assumes "n = 2 * k + 1"
    and "ec_scalar_mult p a k P = H" and "ec_add p a H H = D" and "ec_add p a D P = R"
  shows "ec_scalar_mult p a n P = R"
  using assms by (subst ec_scalar_mult.simps) (simp add: Let_def)

lemma aacs_mult_1:
  "ec_scalar_mult 0x9DC9D81355ECCEB560BDB09EF9EAE7C479A7D7DF 0x9DC9D81355ECCEB560BDB09EF9EAE7C479A7D7DC 1
     (Some (0x2E64FC22578351E6F4CCA7EB81D0A4BDC54CCEC6, 0x914A25DD05442889DB455C7F23C9A0707F5CBB9))
   = (Some (0x2E64FC22578351E6F4CCA7EB81D0A4BDC54CCEC6, 0x914A25DD05442889DB455C7F23C9A0707F5CBB9))"
  by (rule ec_scalar_mult_1)

lemma aacs_mult_2:
  "ec_scalar_mult 0x9DC9D81355ECCEB560BDB09EF9EAE7C479A7D7DF 0x9DC9D81355ECCEB560BDB09EF9EAE7C479A7D7DC 2
     (Some (0x2E64FC22578351E6F4CCA7EB81D0A4BDC54CCEC6, 0x914A25DD05442889DB455C7F23C9A0707F5CBB9))
   = (Some (0x536E9C02259B6C862F3D2BEF747BD2CDFAC38735, 0x72B8E4124DE32C82E3F8C1C67DC76D3169D69464))"
  by (rule ec_scalar_mult_even [where k = 1, OF _ _ aacs_mult_1 aacs_2G]) simp_all

lemma aacs_mult_4:
  "ec_scalar_mult 0x9DC9D81355ECCEB560BDB09EF9EAE7C479A7D7DF 0x9DC9D81355ECCEB560BDB09EF9EAE7C479A7D7DC 4
     (Some (0x2E64FC22578351E6F4CCA7EB81D0A4BDC54CCEC6, 0x914A25DD05442889DB455C7F23C9A0707F5CBB9))
   = (Some (0x78E1977CAF3435CBE1379B52784A2EABD9459727, 0x2FFFA9414D60B686510DA3CCDF77C60D0AF98F6C))"
  by (rule ec_scalar_mult_even [where k = 2, OF _ _ aacs_mult_2 aacs_4G]) simp_all

lemma aacs_mult_8:
  "ec_scalar_mult 0x9DC9D81355ECCEB560BDB09EF9EAE7C479A7D7DF 0x9DC9D81355ECCEB560BDB09EF9EAE7C479A7D7DC 8
     (Some (0x2E64FC22578351E6F4CCA7EB81D0A4BDC54CCEC6, 0x914A25DD05442889DB455C7F23C9A0707F5CBB9))
   = (Some (0x1C3FDC47059527C2D6F68E24F9EA7E0D005DDFCE, 0x5E20833288EC1024F5BB73E1479FAC642CEB6CDF))"
  by (rule ec_scalar_mult_even [where k = 4, OF _ _ aacs_mult_4 aacs_8G]) simp_all

lemma aacs_mult_17:
  "ec_scalar_mult 0x9DC9D81355ECCEB560BDB09EF9EAE7C479A7D7DF 0x9DC9D81355ECCEB560BDB09EF9EAE7C479A7D7DC 17
     (Some (0x2E64FC22578351E6F4CCA7EB81D0A4BDC54CCEC6, 0x914A25DD05442889DB455C7F23C9A0707F5CBB9))
   = (Some (0x7356D477AF3775FBAAE56D92CE7EA828EEDDA773, 0x15DA4F23D6968496EC29BC04F9E26A995CBBF6C5))"
  by (rule ec_scalar_mult_odd [where k = 8, OF _ aacs_mult_8 aacs_16G aacs_17G]) simp

lemma aacs_mult_34:
  "ec_scalar_mult 0x9DC9D81355ECCEB560BDB09EF9EAE7C479A7D7DF 0x9DC9D81355ECCEB560BDB09EF9EAE7C479A7D7DC 34
     (Some (0x2E64FC22578351E6F4CCA7EB81D0A4BDC54CCEC6, 0x914A25DD05442889DB455C7F23C9A0707F5CBB9))
   = (Some (0x7D629DA7C74EF6765DA1F4353E39BD536E4DE40, 0x86C02DF147977391093EC8623AC087BABCD8B968))"
  by (rule ec_scalar_mult_even [where k = 17, OF _ _ aacs_mult_17 aacs_34G]) simp_all

lemma aacs_mult_69:
  "ec_scalar_mult 0x9DC9D81355ECCEB560BDB09EF9EAE7C479A7D7DF 0x9DC9D81355ECCEB560BDB09EF9EAE7C479A7D7DC 69
     (Some (0x2E64FC22578351E6F4CCA7EB81D0A4BDC54CCEC6, 0x914A25DD05442889DB455C7F23C9A0707F5CBB9))
   = (Some (0x975C0E5D12CA2E594A18BDAFCECF02D4587E0373, 0x9F6CD801103A12FE2E442C635146B24369CEDA))"
  by (rule ec_scalar_mult_odd [where k = 34, OF _ aacs_mult_34 aacs_68G aacs_69G]) simp

subsection \<open>Round trip of the shortest encoding\<close>

lemma be_value_ge_head:
  assumes "bs \<noteq> []" and "hd bs \<noteq> 0"
  shows "256 ^ (length bs - 1) \<le> be_value bs"
proof -
  obtain b rest where bs: "bs = b # rest" using assms(1) by (cases bs) auto
  have "unat b \<noteq> 0" using assms(2) bs by (simp add: unat_eq_0)
  then have "1 \<le> unat b" by simp
  then have "1 * 256 ^ length rest \<le> unat b * 256 ^ length rest"
    by (rule mult_le_mono1)
  then have "256 ^ length rest \<le> unat b * 256 ^ length rest"
    by (simp only: mult_1)
  then have "256 ^ length rest \<le> unat b * 256 ^ length rest + be_value rest"
    by (rule trans_le_add1)
  then show ?thesis by (simp add: bs)
qed

lemma be_value_inj:
  assumes "length xs = length ys" and "be_value xs = be_value ys"
  shows "xs = ys"
proof -
  have "xs = be_bytes (length xs) (be_value xs)" by (simp add: be_bytes_be_value)
  also have "\<dots> = be_bytes (length ys) (be_value ys)" using assms by simp
  also have "\<dots> = ys" by (rule be_bytes_be_value)
  finally show ?thesis .
qed

lemma mpi_bytes_be_value:
  assumes "bs \<noteq> []" and "hd bs \<noteq> 0"
  shows "mpi_bytes (be_value bs) = bs"
proof -
  define n where "n = be_value bs"
  define L where "L = length bs"
  have "n < 256 ^ L" unfolding n_def L_def by (rule be_value_less)
  then have up: "length (mpi_bytes n) \<le> L" by (simp add: length_mpi_bytes_le_iff)
  have "256 ^ (L - 1) \<le> n" unfolding n_def L_def using assms by (rule be_value_ge_head)
  then have "\<not> length (mpi_bytes n) \<le> L - 1" by (simp add: length_mpi_bytes_le_iff)
  with up have "length (mpi_bytes n) = L" by simp
  moreover have "be_value (mpi_bytes n) = be_value bs"
    by (simp add: be_value_mpi_bytes n_def)
  ultimately show ?thesis unfolding n_def L_def by (intro be_value_inj) simp_all
qed

subsection \<open>The reference arithmetic at the scalar 1\<close>

lemma inv_mod_one: "1 < p \<Longrightarrow> inv_mod p 1 = 1"
  by (rule inv_mod_unique) simp_all

lemma point_of_mpi_affine:
  assumes "1 < p" and "x < p" and "y < p"
  shows "point_of_mpi p \<lparr>pt_x = x, pt_y = y, pt_z = 1\<rparr> = Some (x, y)"
proof -
  have "inv_mod p (Suc 0) = Suc 0" using inv_mod_one [OF assms(1)] by simp
  then show ?thesis using assms by (simp add: point_of_mpi_def)
qed

lemma reference_ec_affine:
  assumes "1 < p" and "x < p" and "y < p"
    and "ec_scalar_mult p a k (Some (x, y)) = Some (x', y')" and "x' < p" and "y' < p"
  shows "ec_get_affine reference_ec
           (ec_mul_point reference_ec k \<lparr>pt_x = x, pt_y = y, pt_z = 1\<rparr> (gcry_mpi_ec_init p a))
           (gcry_mpi_ec_init p a) = Some (x', y')"
proof -
  have "point_of_mpi p \<lparr>pt_x = x, pt_y = y, pt_z = 1\<rparr> = Some (x, y)"
    using assms(1-3) by (rule point_of_mpi_affine)
  moreover have "point_of_mpi p \<lparr>pt_x = x', pt_y = y', pt_z = 1\<rparr> = Some (x', y')"
    using assms(1,5,6) by (rule point_of_mpi_affine)
  ultimately show ?thesis
    using assms(4)
    by (simp add: reference_ec_def gcry_mpi_ec_init_def mpi_of_point_def del: One_nat_def)
qed

subsection \<open>Signing\<close>

lemma sign_failure_unchanged:
  assumes "hash_ok B" and "length priv_key = 20" and "length nonce = 20" and "length point = 40"
    and "sign_failed B cert priv_key nonce point"
  shows "fst (crypto_aacs_sign B cert priv_key signature nonce point) = signature"
proof -
  have blk: "buf_write (buf_write (replicate 60 0) 0 (take 20 nonce)) 20 (take 40 point)
             = nonce @ point"
    using assms(3,4) by (simp add: buf_write_def)
  have key: "aacs_sexp_key B (drop 12 cert) (drop 32 cert) (Some priv_key) =
     (sexp_build B (Sexp_key ''private-key''
                  (AACS_EC_p, AACS_EC_a, AACS_EC_b, AACS_EC_g, AACS_EC_n)
                  ([0x04] @ take 20 (drop 12 cert) @ take 20 (drop 32 cert))
                  (Some (be_value priv_key))),
      Sexp_key ''private-key''
                  (AACS_EC_p, AACS_EC_a, AACS_EC_b, AACS_EC_g, AACS_EC_n)
                  ([0x04] @ take 20 (drop 12 cert) @ take 20 (drop 32 cert))
                  (Some (be_value priv_key)),
      [Call_sexp_build (Sexp_key ''private-key''
                  (AACS_EC_p, AACS_EC_a, AACS_EC_b, AACS_EC_g, AACS_EC_n)
                  ([0x04] @ take 20 (drop 12 cert) @ take 20 (drop 32 cert))
                  (Some (be_value priv_key)))])"
    using assms(2) by (simp add: aacs_sexp_key_def Let_def gcry_mpi_scan_def)
  have t60: "take 60 (nonce @ point) = nonce @ point"
    using assms(3,4) by simp
  show ?thesis
    using assms(5)
    unfolding crypto_aacs_sign_def Let_def blk key aacs_sexp_sha1_eq [OF assms(1)] t60
      sign_failed_def
    by (auto split: prod.splits)
qed

lemma mpi_bytes_test_r: "mpi_bytes (be_value test_r_bytes) = test_r_bytes"
  by (rule mpi_bytes_be_value) (simp_all add: test_r_bytes_def)

lemma mpi_bytes_test_s: "mpi_bytes (be_value test_s_bytes) = test_s_bytes"
  by (rule mpi_bytes_be_value) (simp_all add: test_s_bytes_def)

lemma sign_test_gcry:
  "fst (crypto_aacs_sign test_gcry cert priv_key test_signature nonce point) = test_signature"
proof -
  have lr: "length test_r_bytes = 20" by (simp add: test_r_bytes_def)
  have ls: "length test_s_bytes = 20" by (simp add: test_s_bytes_def)
  have p1: "fst (snd (gcry_mpi_print test_signature 0 20 0 (be_value test_r_bytes)))
            = test_signature"
    by (simp add: gcry_mpi_print_def mpi_bytes_test_r lr ls buf_write_def test_signature_def)
  have p2: "fst (snd (gcry_mpi_print test_signature 20 20 0 (be_value test_s_bytes)))
            = test_signature"
    by (simp add: gcry_mpi_print_def mpi_bytes_test_s lr ls buf_write_def test_signature_def)
  show ?thesis
    by (simp add: crypto_aacs_sign_def aacs_sexp_key_def aacs_sexp_sha1_def Let_def
        test_gcry_def p1 p2)
qed

subsection \<open>The bus key and the host key pair on the reference arithmetic\<close>

lemma AACS_EC_p_gt_1: "1 < AACS_EC_p"
  by (simp add: AACS_EC_p_def)

lemma bus_key_q_x_reference:
  assumes "gcry_mpi_scan drive_key_point 20 = x"
    and "gcry_mpi_scan (drop 20 drive_key_point) 20 = y"
    and "x < AACS_EC_p" and "y < AACS_EC_p"
    and "ec_scalar_mult AACS_EC_p AACS_EC_a (gcry_mpi_scan priv_key 20) (Some (x, y))
         = Some (x', y')"
    and "x' < AACS_EC_p" and "y' < AACS_EC_p"
  shows "bus_key_q_x reference_ec priv_key drive_key_point = x'"
  using reference_ec_affine [OF AACS_EC_p_gt_1 assms(3,4,5,6,7)] assms(1,2)
  by (simp add: bus_key_q_x_def aacs_curve_init_eq Let_def)

lemma scan_priv_key_1: "gcry_mpi_scan priv_key_1 20 = 1"
  by (simp add: gcry_mpi_scan_def priv_key_1_def)

lemma bus_key_q_x_small_point_1: "bus_key_q_x reference_ec priv_key_1 small_point_1 = 1"
proof (rule bus_key_q_x_reference)
  show "gcry_mpi_scan small_point_1 20 = 1"
    by (simp add: gcry_mpi_scan_def small_point_1_def)
  show "gcry_mpi_scan (drop 20 small_point_1) 20 = 0x3C3E82AA9DE89A16212B37DA110094BB6C0B740A"
    by (simp add: gcry_mpi_scan_def small_point_1_def)
  show "ec_scalar_mult AACS_EC_p AACS_EC_a (gcry_mpi_scan priv_key_1 20)
          (Some (1, 0x3C3E82AA9DE89A16212B37DA110094BB6C0B740A))
        = Some (1, 0x3C3E82AA9DE89A16212B37DA110094BB6C0B740A)"
    by (simp only: scan_priv_key_1 ec_scalar_mult_1)
qed (simp_all add: AACS_EC_p_def)

lemma bus_key_q_x_small_point_2: "bus_key_q_x reference_ec priv_key_1 small_point_2 = 2"
proof (rule bus_key_q_x_reference)
  show "gcry_mpi_scan small_point_2 20 = 2"
    by (simp add: gcry_mpi_scan_def small_point_2_def)
  show "gcry_mpi_scan (drop 20 small_point_2) 20 = 0x9B4E3FE5F95BB42B639C810DE06667F21DC9180C"
    by (simp add: gcry_mpi_scan_def small_point_2_def)
  show "ec_scalar_mult AACS_EC_p AACS_EC_a (gcry_mpi_scan priv_key_1 20)
          (Some (2, 0x9B4E3FE5F95BB42B639C810DE06667F21DC9180C))
        = Some (2, 0x9B4E3FE5F95BB42B639C810DE06667F21DC9180C)"
    by (simp only: scan_priv_key_1 ec_scalar_mult_1)
qed (simp_all add: AACS_EC_p_def)

lemma bus_key_q_x_test_point: "bus_key_q_x reference_ec priv_key_1 test_point = AACS_EC_G_x"
proof (rule bus_key_q_x_reference)
  show "gcry_mpi_scan test_point 20 = AACS_EC_G_x"
    by (simp add: gcry_mpi_scan_def test_point_def AACS_EC_G_x_def)
  show "gcry_mpi_scan (drop 20 test_point) 20 = AACS_EC_G_y"
    by (simp add: gcry_mpi_scan_def test_point_def AACS_EC_G_y_def)
  show "ec_scalar_mult AACS_EC_p AACS_EC_a (gcry_mpi_scan priv_key_1 20)
          (Some (AACS_EC_G_x, AACS_EC_G_y))
        = Some (AACS_EC_G_x, AACS_EC_G_y)"
    by (simp only: scan_priv_key_1 ec_scalar_mult_1)
qed (simp_all add: AACS_EC_p_def AACS_EC_G_x_def AACS_EC_G_y_def)

lemma mpi_bytes_AACS_EC_G_x: "mpi_bytes AACS_EC_G_x = take 20 test_point"
proof -
  have "be_value (take 20 test_point) = AACS_EC_G_x"
    by (simp add: test_point_def AACS_EC_G_x_def)
  moreover have "mpi_bytes (be_value (take 20 test_point)) = take 20 test_point"
    by (rule mpi_bytes_be_value) (simp_all add: test_point_def)
  ultimately show ?thesis by simp
qed

lemma mpi_bytes_1: "mpi_bytes 1 = [1]"
  by (simp add: mpi_bytes.simps)

lemma mpi_bytes_2: "mpi_bytes 2 = [2]"
  by (simp add: mpi_bytes.simps)

lemma small_point_1_on_curve:
  "(0x3C3E82AA9DE89A16212B37DA110094BB6C0B740A * 0x3C3E82AA9DE89A16212B37DA110094BB6C0B740A)
     mod AACS_EC_p = (1 * 1 * 1 + AACS_EC_a * 1 + AACS_EC_b) mod AACS_EC_p"
proof -
  have "(0x3C3E82AA9DE89A16212B37DA110094BB6C0B740A * 0x3C3E82AA9DE89A16212B37DA110094BB6C0B740A)
     mod AACS_EC_p = (0x402DAD3EC1CBCD165248D68E1245E0C4DAACB1D6::nat)"
    by (rule mod_cert [where q = "0x17005E439E23472252EB99D69D2E2CC417FA6B32"]) (simp_all add: AACS_EC_p_def)
  moreover have "(1 * 1 * 1 + AACS_EC_a * 1 + AACS_EC_b) mod AACS_EC_p = (0x402DAD3EC1CBCD165248D68E1245E0C4DAACB1D6::nat)"
    by (rule mod_cert [where q = "0x1"])
      (simp_all add: AACS_EC_p_def AACS_EC_a_def AACS_EC_b_def)
  ultimately show ?thesis by simp
qed

subsection \<open>The host key pair for the scalar 69\<close>

lemma mpi_bytes_x_69G: "mpi_bytes x_69G = x_69G_bytes"
proof -
  have "be_value x_69G_bytes = x_69G" by (simp add: x_69G_bytes_def x_69G_def)
  moreover have "mpi_bytes (be_value x_69G_bytes) = x_69G_bytes"
    by (rule mpi_bytes_be_value) (simp_all add: x_69G_bytes_def)
  ultimately show ?thesis by simp
qed

lemma mpi_bytes_y_69G: "mpi_bytes y_69G = y_69G_bytes"
proof -
  have "be_value y_69G_bytes = y_69G" by (simp add: y_69G_bytes_def y_69G_def)
  moreover have "mpi_bytes (be_value y_69G_bytes) = y_69G_bytes"
    by (rule mpi_bytes_be_value) (simp_all add: y_69G_bytes_def)
  ultimately show ?thesis by simp
qed

lemma be_bytes_20_y_69G: "be_bytes 20 y_69G = 0 # y_69G_bytes"
proof -
  have "be_value (0 # y_69G_bytes) = y_69G" by (simp add: y_69G_bytes_def y_69G_def)
  moreover have "length (0 # y_69G_bytes) = 20" by (simp add: y_69G_bytes_def)
  ultimately show ?thesis using be_bytes_be_value [of "0 # y_69G_bytes"] by simp
qed

lemma be_bytes_20_x_69G: "be_bytes 20 x_69G = x_69G_bytes"
proof -
  have "be_value x_69G_bytes = x_69G" by (simp add: x_69G_bytes_def x_69G_def)
  moreover have "length x_69G_bytes = 20" by (simp add: x_69G_bytes_def)
  ultimately show ?thesis using be_bytes_be_value [of x_69G_bytes] by simp
qed

lemma scalar_mult_69:
  "ec_scalar_mult AACS_EC_p AACS_EC_a (be_value host_key_69) (Some (AACS_EC_G_x, AACS_EC_G_y))
   = Some (x_69G, y_69G)"
proof -
  have "be_value host_key_69 = 69" by (simp add: host_key_69_def)
  then show ?thesis
    using aacs_mult_69
    by (simp add: AACS_EC_p_def AACS_EC_a_def AACS_EC_G_x_def AACS_EC_G_y_def x_69G_def
        y_69G_def)
qed

lemma host_key_pair_69:
  "crypto_create_host_key_pair reference_ec host_key_69 (replicate 20 0) (replicate 40 0)
   = (host_key_69, x_69G_bytes @ y_69G_bytes @ [0])"
proof -
  have l: "length host_key_69 = 20" by (simp add: host_key_69_def)
  have w: "buf_write (replicate 20 0) 0 (take 20 host_key_69) = host_key_69"
    using l by (simp add: buf_write_def)
  have d: "gcry_mpi_scan host_key_69 20 = be_value host_key_69"
    using l by (simp add: gcry_mpi_scan_def)
  have q: "ec_get_affine reference_ec
             (ec_mul_point reference_ec (be_value host_key_69)
                \<lparr>pt_x = AACS_EC_G_x, pt_y = AACS_EC_G_y, pt_z = 1\<rparr>
                (gcry_mpi_ec_init AACS_EC_p AACS_EC_a))
             (gcry_mpi_ec_init AACS_EC_p AACS_EC_a) = Some (x_69G, y_69G)"
    by (rule reference_ec_affine [OF AACS_EC_p_gt_1 _ _ scalar_mult_69])
      (simp_all add: AACS_EC_p_def AACS_EC_G_x_def AACS_EC_G_y_def x_69G_def y_69G_def)
  have lx: "length x_69G_bytes = 20" by (simp add: x_69G_bytes_def)
  have ly: "length y_69G_bytes = 19" by (simp add: y_69G_bytes_def)
  have p1: "fst (snd (gcry_mpi_print (replicate 40 0) 0 20 0 x_69G))
            = x_69G_bytes @ replicate 20 0"
    by (simp add: gcry_mpi_print_def mpi_bytes_x_69G lx buf_write_def)
  have p2: "fst (snd (gcry_mpi_print (x_69G_bytes @ replicate 20 0) 20 20 0 y_69G))
            = x_69G_bytes @ y_69G_bytes @ [0]"
    by (simp add: gcry_mpi_print_def mpi_bytes_y_69G lx ly buf_write_def)
  show ?thesis
    by (simp add: crypto_create_host_key_pair_def Let_def w d aacs_curve_init_eq q p1 p2
        del: One_nat_def)
qed

section \<open>The claims\<close>

text \<open>
  Claim C6.  For every 16-byte input, \<open>shl_128\<close> (the specification's \<open>shiftLeft1\<close>)
  produces the 128-bit value shifted left by one bit with the carry out of byte 0
  discarded: the result is the 16-byte encoding of twice the input value modulo
  \<open>2\<^sup>1\<^sup>2\<^sup>8\<close>.  Byte by byte, every byte is shifted left and its low bit is the
  top bit of the next less significant byte (byte 15 gets a zero).
\<close>

theorem shl_128_correct:
  assumes "length src = 16" and "length dst = 16"
  shows "shl_128 dst src = spec_shiftLeft1 src \<and>
         be_value (shl_128 dst src) = (2 * be_value src) mod 2 ^ 128 \<and>
         (\<forall>i<16. shl_128 dst src ! i =
            push_bit 1 (src ! i) OR (if i = 15 then 0 else drop_bit 7 (src ! (i + 1))))"
proof (intro conjI allI impI)
  show eq: "shl_128 dst src = spec_shiftLeft1 src"
    using assms by (simp add: shl_128_eq_shl_bytes spec_shiftLeft1_eq)
  have "be_value (shl_128 dst src) = (2 * be_value src) mod 256 ^ length src"
    using assms by (simp add: shl_128_eq_shl_bytes be_value_shl_bytes)
  then show "be_value (shl_128 dst src) = (2 * be_value src) mod 2 ^ 128"
    using assms by simp
next
  fix i :: nat assume "i < 16"
  then show "shl_128 dst src ! i =
      push_bit 1 (src ! i) OR (if i = 15 then 0 else drop_bit 7 (src ! (i + 1)))"
    using assms by (simp add: shl_128_def shl_128_loop_nth)
qed

theorem shl_128_correct_witness:
  "length test_block = 16 \<and> length zero_block = 16 \<and>
   shl_128 zero_block test_block = spec_shiftLeft1 test_block \<and>
   be_value (shl_128 zero_block test_block) = (2 * be_value test_block) mod 2 ^ 128 \<and>
   shl_128 zero_block test_block ! 14 =
     push_bit 1 (test_block ! 14) OR drop_bit 7 (test_block ! 15) \<and>
   shl_128 zero_block test_block ! 15 = push_bit 1 (test_block ! 15)"
proof -
  have a: "length test_block = 16" by (simp add: test_block_def)
  have b: "length zero_block = 16" by (simp add: zero_block_def)
  note t = shl_128_correct [OF a b]
  have c: "shl_128 zero_block test_block ! 14 =
             push_bit 1 (test_block ! 14) OR drop_bit 7 (test_block ! 15)"
    using t [THEN conjunct2, THEN conjunct2, THEN spec, of 14] by simp
  have d: "shl_128 zero_block test_block ! 15 = push_bit 1 (test_block ! 15)"
    using t [THEN conjunct2, THEN conjunct2, THEN spec, of 15] by simp
  show ?thesis
    using a b t [THEN conjunct1] t [THEN conjunct2, THEN conjunct1] c d by (intro conjI)
qed

text \<open>
  Claim C5.  For every 16-byte data block and 16-byte key, \<open>crypto_aes_cmac_16\<close>
  returns the encryption under the key of \<open>data XOR K1\<close>, where \<open>K1\<close> is the one-bit
  left shift of \<open>L\<close>, the encryption of the all-zero block, with \<open>0x87\<close> exclusive-ored
  into its last byte exactly when the most significant bit of \<open>L\<close> is set.  The block
  cipher is any length-preserving function.
\<close>

theorem crypto_aes_cmac_16_correct:
  assumes "cipher_ok B" and "length data = 16" and "length aes_key = 16" and "length cmac = 16"
  shows "fst (crypto_aes_cmac_16 B data aes_key cmac) = spec_cmac16 (cipher_encrypt B) data aes_key"
proof -
  define K1 where "K1 = spec_K1 (cipher_encrypt B aes_key (replicate 16 0))"
  have k1: "fst (fst (cmac_key B aes_key (replicate 16 0) (replicate 16 0))) = K1"
    unfolding K1_def using assms(1,3) by (intro cmac_key_k1) simp_all
  have lenK1: "length K1 = 16" by (simp add: K1_def length_spec_K1)
  have c1: "buf_write cmac 0 (take 16 data) = data"
    using assms(2,4) by (simp add: buf_write_def)
  have c2: "xor_loop 0 data K1 = xor_bytes data K1"
    using assms(2) lenK1 by (rule xor_loop_eq_xor_bytes)
  have len2: "length (xor_bytes data K1) = 16"
    using assms(2) lenK1 by (simp add: xor_bytes_def)
  have len3: "length (cipher_encrypt B aes_key (xor_bytes data K1)) = 16"
    using assms(1) len2 by (simp add: cipher_ok_def)
  have c3: "buf_write (xor_bytes data K1) 0 (take 16 (cipher_encrypt B aes_key (xor_bytes data K1)))
            = cipher_encrypt B aes_key (xor_bytes data K1)"
    using len2 len3 by (simp add: buf_write_def)
  have "fst (crypto_aes_cmac_16 B data aes_key cmac)
        = cipher_encrypt B aes_key (xor_bytes data K1)"
    using assms(3) len2
    by (simp add: crypto_aes_cmac_16_def Let_def k1 c1 c2 c3)
  then show ?thesis by (simp add: spec_cmac16_def K1_def)
qed

theorem crypto_aes_cmac_16_correct_witness:
  "cipher_ok test_gcry \<and> length test_data = 16 \<and> length test_key = 16 \<and>
   length zero_block = 16 \<and>
   fst (crypto_aes_cmac_16 test_gcry test_data test_key zero_block) =
     spec_cmac16 (cipher_encrypt test_gcry) test_data test_key"
proof -
  have a: "cipher_ok test_gcry" by (simp add: cipher_ok_def test_gcry_def)
  have b: "length test_data = 16" by (simp add: test_data_def)
  have c: "length test_key = 16" by (simp add: test_key_def)
  have d: "length zero_block = 16" by (simp add: zero_block_def)
  show ?thesis
    by (rule conjI [OF a conjI [OF b conjI [OF c conjI [OF d
          crypto_aes_cmac_16_correct [OF a b c d]]]]])
qed

text \<open>
  Claim C4.  For every 16-byte key, each output of \<open>crypto_aesg3\<close> that is requested
  is the decryption under the key of the seed \<open>7B103C5DCB08C4E51A27B01799053BD9\<close> with
  its last byte incremented (modulo 256), exclusive-or that incremented seed; the
  increment is 0 for the left subkey, 1 for the processing key and 2 for the right
  subkey.  An output that is not requested stays absent, and the only calls of the
  cipher are the decryptions for the requested outputs.
\<close>

theorem crypto_aesg3_correct:
  assumes "cipher_ok B" and "length D = 16"
    and "out_buf_ok lsubk" and "out_buf_ok rsubk" and "out_buf_ok pk"
  shows "crypto_aesg3 B D lsubk rsubk pk =
           ((requested lsubk (spec_aesg3 (cipher_decrypt B) D 0),
             requested rsubk (spec_aesg3 (cipher_decrypt B) D 2),
             requested pk (spec_aesg3 (cipher_decrypt B) D 1)),
            spec_aesg3_calls D lsubk 0 @ spec_aesg3_calls D pk 1 @ spec_aesg3_calls D rsubk 2)"
  using assms by (simp add: crypto_aesg3_def Let_def aesg3_opt_correct)

theorem crypto_aesg3_correct_witness:
  "cipher_ok test_gcry \<and> length test_key = 16 \<and>
   out_buf_ok (Some zero_block) \<and> out_buf_ok None \<and>
   crypto_aesg3 test_gcry test_key (Some zero_block) None (Some zero_block) =
     ((Some (spec_aesg3 (cipher_decrypt test_gcry) test_key 0),
       None,
       Some (spec_aesg3 (cipher_decrypt test_gcry) test_key 1)),
      [Call_cipher_decrypt test_key (spec_seed 0), Call_cipher_decrypt test_key (spec_seed 1)])"
proof -
  have a: "cipher_ok test_gcry" by (simp add: cipher_ok_def test_gcry_def)
  have b: "length test_key = 16" by (simp add: test_key_def)
  have c: "out_buf_ok (Some zero_block)" by (simp add: out_buf_ok_def zero_block_def)
  have d: "out_buf_ok None" by (simp add: out_buf_ok_def)
  show ?thesis
    using crypto_aesg3_correct [OF a b c d c] a b c d
    by (simp add: requested_def spec_aesg3_calls_def)
qed

text \<open>
  Claim C7.  For a certificate buffer whose 16-bit big-endian length field at offset 2
  differs from \<open>0x005c\<close>, \<open>crypto_aacs_verify_cert\<close> returns 0 (false) and has made no
  call to the cryptographic library.  When the field equals \<open>0x005c\<close> it returns the
  result of verifying the 40-byte signature at offset 52 over the bytes 0 to 51 of the
  certificate against the fixed root public key.
\<close>

theorem crypto_aacs_verify_cert_correct:
  "(4 \<le> length cert \<and> be_value (take 2 (drop 2 cert)) \<noteq> 0x5c
      \<longrightarrow> crypto_aacs_verify_cert B cert = (0, [])) \<and>
   (92 \<le> length cert \<and> hash_ok B \<and> be_value (take 2 (drop 2 cert)) = 0x5c
      \<longrightarrow> fst (crypto_aacs_verify_cert B cert) =
            (if spec_verify B (take 40 (drop 52 cert)) aacs_la_pubkey_x aacs_la_pubkey_y
                  (take 52 cert)
             then 1 else 0))"
proof (intro conjI impI)
  assume "4 \<le> length cert \<and> be_value (take 2 (drop 2 cert)) \<noteq> 0x5c"
  then show "crypto_aacs_verify_cert B cert = (0, [])"
    by (simp add: crypto_aacs_verify_cert_def MKINT_BE16_be_value)
next
  assume a: "92 \<le> length cert \<and> hash_ok B \<and> be_value (take 2 (drop 2 cert)) = 0x5c"
  then have "4 \<le> length cert" by simp
  then have f: "MKINT_BE16 (drop 2 cert) = 0x5c"
    using a by (simp add: MKINT_BE16_be_value)
  have lx: "length aacs_la_pubkey_x = 20" by (simp add: aacs_la_pubkey_x_def)
  have ly: "length aacs_la_pubkey_y = 20" by (simp add: aacs_la_pubkey_y_def)
  have "92 \<le> length cert" using a by simp
  then have ls: "40 \<le> length (drop 52 cert)" by simp
  have hk: "hash_ok B" using a by simp
  show "fst (crypto_aacs_verify_cert B cert) =
          (if spec_verify B (take 40 (drop 52 cert)) aacs_la_pubkey_x aacs_la_pubkey_y
                (take 52 cert)
           then 1 else 0)"
    using aacs_verify_spec [OF hk lx ly ls, of cert 52]
    by (simp add: crypto_aacs_verify_cert_def f crypto_aacs_verify_aacsla_def Let_def)
qed

theorem crypto_aacs_verify_cert_correct_witness:
  "4 \<le> length test_bad_cert \<and> be_value (take 2 (drop 2 test_bad_cert)) \<noteq> 0x5c \<and>
   crypto_aacs_verify_cert test_gcry test_bad_cert = (0, []) \<and>
   92 \<le> length test_host_cert \<and> hash_ok test_gcry \<and>
   be_value (take 2 (drop 2 test_host_cert)) = 0x5c \<and>
   spec_verify test_gcry (take 40 (drop 52 test_host_cert)) aacs_la_pubkey_x aacs_la_pubkey_y
     (take 52 test_host_cert) \<and>
   fst (crypto_aacs_verify_cert test_gcry test_host_cert) = 1"
proof -
  have a: "4 \<le> length test_bad_cert \<and> be_value (take 2 (drop 2 test_bad_cert)) \<noteq> 0x5c"
    by (simp add: test_bad_cert_def)
  have h: "hash_ok test_gcry" by (simp add: hash_ok_def test_gcry_def min_def)
  have b: "92 \<le> length test_host_cert \<and> hash_ok test_gcry \<and>
           be_value (take 2 (drop 2 test_host_cert)) = 0x5c"
    using h by (simp add: test_host_cert_def)
  have v: "spec_verify test_gcry (take 40 (drop 52 test_host_cert)) aacs_la_pubkey_x
             aacs_la_pubkey_y (take 52 test_host_cert)"
    by (simp add: spec_verify_def test_gcry_def test_host_cert_def test_r_bytes_def
        test_s_bytes_def)
  show ?thesis
    using crypto_aacs_verify_cert_correct [of test_bad_cert test_gcry]
      crypto_aacs_verify_cert_correct [of test_host_cert test_gcry] a b v
    by simp
qed

text \<open>
  Claim C8.  \<open>crypto_aacs_verify_host_cert\<close> returns 0 without any call to the
  cryptographic library when the type byte at offset 0 is not \<open>0x02\<close>, and
  \<open>crypto_aacs_verify_drive_cert\<close> does so when the type byte is not \<open>0x01\<close>; when the
  type byte matches, each returns exactly what \<open>crypto_aacs_verify_cert\<close> returns on
  the same buffer (the same value after the same calls).
\<close>

theorem crypto_aacs_verify_host_drive_cert_correct:
  "cert \<noteq> [] \<longrightarrow>
     (hd cert \<noteq> 0x02 \<longrightarrow> crypto_aacs_verify_host_cert B cert = (0, [])) \<and>
     (hd cert = 0x02 \<longrightarrow> crypto_aacs_verify_host_cert B cert = crypto_aacs_verify_cert B cert) \<and>
     (hd cert \<noteq> 0x01 \<longrightarrow> crypto_aacs_verify_drive_cert B cert = (0, [])) \<and>
     (hd cert = 0x01 \<longrightarrow> crypto_aacs_verify_drive_cert B cert = crypto_aacs_verify_cert B cert)"
proof
  assume ne: "cert \<noteq> []"
  then have h: "cert ! 0 = hd cert" by (simp add: hd_conv_nth)
  have eq: "(if fst r = 0 then (0, snd r) else (1, snd r)) = r"
    if "fst r = 0 \<or> fst r = 1" for r :: "int \<times> gcry_call list"
    using that by (cases r) auto
  note c = eq [OF fst_crypto_aacs_verify_cert_cases [of B cert]]
  show "(hd cert \<noteq> 0x02 \<longrightarrow> crypto_aacs_verify_host_cert B cert = (0, [])) \<and>
     (hd cert = 0x02 \<longrightarrow> crypto_aacs_verify_host_cert B cert = crypto_aacs_verify_cert B cert) \<and>
     (hd cert \<noteq> 0x01 \<longrightarrow> crypto_aacs_verify_drive_cert B cert = (0, [])) \<and>
     (hd cert = 0x01 \<longrightarrow> crypto_aacs_verify_drive_cert B cert = crypto_aacs_verify_cert B cert)"
    by (simp add: crypto_aacs_verify_host_cert_def crypto_aacs_verify_drive_cert_def h Let_def c)
qed

theorem crypto_aacs_verify_host_drive_cert_correct_witness:
  "test_host_cert \<noteq> [] \<and> hd test_host_cert = 0x02 \<and>
   crypto_aacs_verify_host_cert test_gcry test_host_cert =
     crypto_aacs_verify_cert test_gcry test_host_cert \<and>
   crypto_aacs_verify_drive_cert test_gcry test_host_cert = (0, []) \<and>
   test_drive_cert \<noteq> [] \<and> hd test_drive_cert = 0x01 \<and>
   crypto_aacs_verify_drive_cert test_gcry test_drive_cert =
     crypto_aacs_verify_cert test_gcry test_drive_cert \<and>
   crypto_aacs_verify_host_cert test_gcry test_drive_cert = (0, [])"
proof -
  have a: "test_host_cert \<noteq> [] \<and> hd test_host_cert = 0x02"
    by (simp add: test_host_cert_def)
  have b: "test_drive_cert \<noteq> [] \<and> hd test_drive_cert = 0x01"
    by (simp add: test_drive_cert_def)
  show ?thesis
    using crypto_aacs_verify_host_drive_cert_correct [of test_host_cert test_gcry]
      crypto_aacs_verify_host_drive_cert_correct [of test_drive_cert test_gcry] a b
    by simp
qed

text \<open>
  Claim C9, as amended.  Whenever the construction of the key object or of the digest
  object, or the ECDSA sign operation, fails inside \<open>crypto_aacs_sign\<close>, the function
  returns without writing the signature: the caller's 40-byte buffer is left as it was.
  The function returns \<^verbatim>\<open>void\<close>; nothing reports the failure to the caller.
\<close>

theorem crypto_aacs_sign_failure_leaves_signature:
  assumes "hash_ok B" and "length priv_key = 20" and "length nonce = 20" and "length point = 40"
    and "sign_failed B cert priv_key nonce point"
  shows "fst (crypto_aacs_sign B cert priv_key signature nonce point) = signature"
  using assms by (rule sign_failure_unchanged)

theorem crypto_aacs_sign_failure_leaves_signature_witness:
  "hash_ok failing_gcry \<and> length host_key_69 = 20 \<and> length test_nonce = 20 \<and>
   length test_point = 40 \<and>
   sign_failed failing_gcry test_host_cert host_key_69 test_nonce test_point \<and>
   fst (crypto_aacs_sign failing_gcry test_host_cert host_key_69 zero_block test_nonce test_point)
     = zero_block"
proof -
  have a: "hash_ok failing_gcry"
    by (simp add: hash_ok_def failing_gcry_def test_gcry_def min_def)
  have b: "length host_key_69 = 20" by (simp add: host_key_69_def)
  have c: "length test_nonce = 20" by (simp add: test_nonce_def)
  have d: "length test_point = 40" by (simp add: test_point_def)
  have e: "sign_failed failing_gcry test_host_cert host_key_69 test_nonce test_point"
    by (simp add: sign_failed_def failing_gcry_def test_gcry_def)
  show ?thesis
    by (rule conjI [OF a conjI [OF b conjI [OF c conjI [OF d conjI [OF e
          crypto_aacs_sign_failure_leaves_signature [OF a b c d e]]]]]])
qed

text \<open>
  Claim C9 as stated says that a failure is returned to the caller as an error.  What
  the caller gets back is the signature buffer and nothing else.  Here the signing
  operation of \<open>failing_gcry\<close> fails and that of \<open>test_gcry\<close> succeeds, on the same
  arguments, and the caller gets back the same buffer from both: the failure is not
  reported.
\<close>

theorem crypto_aacs_sign_failure_not_reported:
  "sign_failed failing_gcry test_host_cert host_key_69 test_nonce test_point \<and>
   \<not> sign_failed test_gcry test_host_cert host_key_69 test_nonce test_point \<and>
   fst (crypto_aacs_sign failing_gcry test_host_cert host_key_69 test_signature
          test_nonce test_point)
   = fst (crypto_aacs_sign test_gcry test_host_cert host_key_69 test_signature
            test_nonce test_point)"
proof -
  have a: "hash_ok failing_gcry"
    by (simp add: hash_ok_def failing_gcry_def test_gcry_def min_def)
  have b: "length host_key_69 = 20" by (simp add: host_key_69_def)
  have c: "length test_nonce = 20" by (simp add: test_nonce_def)
  have d: "length test_point = 40" by (simp add: test_point_def)
  have e: "sign_failed failing_gcry test_host_cert host_key_69 test_nonce test_point"
    by (simp add: sign_failed_def failing_gcry_def test_gcry_def)
  have f: "\<not> sign_failed test_gcry test_host_cert host_key_69 test_nonce test_point"
    by (simp add: sign_failed_def test_gcry_def)
  have "fst (crypto_aacs_sign failing_gcry test_host_cert host_key_69 test_signature
               test_nonce test_point) = test_signature"
    using a b c d e by (rule sign_failure_unchanged)
  then show ?thesis using e f by (simp add: sign_test_gcry)
qed

text \<open>
  Claim C10.  In \<open>crypto_create_bus_key\<close> the 16 bytes of the bus key are read at offset
  \<open>n - 16\<close> of the buffer that holds the shortest big-endian encoding of the
  x-coordinate, \<open>n\<close> being the length of that encoding.  The read is inside the buffer
  only if \<open>n \<ge> 16\<close>.  Whenever the x-coordinate encodes in fewer than 16 bytes, that is
  whenever it is below \<open>2\<^sup>1\<^sup>2\<^sup>0\<close>, the read starts at the negative offset \<open>n - 16\<close>,
  before the buffer, and the result is not the zero-padded encoding.  When
  \<open>16 \<le> n \<le> 100\<close> the result is the last 16 bytes of the encoding.
\<close>

theorem crypto_create_bus_key_bounds:
  "(\<forall>k. crypto_create_bus_key E priv_key drive_key_point bus_key = Inr k
        \<longrightarrow> 16 \<le> length (mpi_bytes (bus_key_q_x E priv_key drive_key_point))) \<and>
   (length (mpi_bytes (bus_key_q_x E priv_key drive_key_point)) < 16
      \<longrightarrow> crypto_create_bus_key E priv_key drive_key_point bus_key =
            Inl (Out_of_bounds
                   (int (length (mpi_bytes (bus_key_q_x E priv_key drive_key_point))) - 16)) \<and>
          int (length (mpi_bytes (bus_key_q_x E priv_key drive_key_point))) - 16 < 0 \<and>
          crypto_create_bus_key E priv_key drive_key_point bus_key \<noteq>
            Inr (buf_write bus_key 0 (be_bytes 16 (bus_key_q_x E priv_key drive_key_point)))) \<and>
   (16 \<le> length (mpi_bytes (bus_key_q_x E priv_key drive_key_point)) \<and>
    length (mpi_bytes (bus_key_q_x E priv_key drive_key_point)) \<le> 100
      \<longrightarrow> crypto_create_bus_key E priv_key drive_key_point bus_key =
            Inr (buf_write bus_key 0
                   (drop (length (mpi_bytes (bus_key_q_x E priv_key drive_key_point)) - 16)
                      (mpi_bytes (bus_key_q_x E priv_key drive_key_point))))) \<and>
   (length (mpi_bytes (bus_key_q_x E priv_key drive_key_point)) < 16
      \<longleftrightarrow> bus_key_q_x E priv_key drive_key_point < 2 ^ 120)"
proof -
  define x where "x = bus_key_q_x E priv_key drive_key_point"
  define n where "n = length (mpi_bytes x)"
  define r where "r = crypto_create_bus_key E priv_key drive_key_point bus_key"
  have r: "r = (if 16 \<le> n \<and> n \<le> 100
                then Inr (buf_write bus_key 0 (drop (n - 16) (mpi_bytes x)))
                else Inl (Out_of_bounds (int (if n \<le> 100 then n else 0) - 16)))"
    by (simp add: r_def n_def x_def crypto_create_bus_key_eq Let_def)
  have 1: "\<forall>k. r = Inr k \<longrightarrow> 16 \<le> n"
    by (auto simp: r split: if_splits)
  have 2: "n < 16 \<longrightarrow> r = Inl (Out_of_bounds (int n - 16)) \<and> int n - 16 < 0 \<and>
             r \<noteq> Inr (buf_write bus_key 0 (be_bytes 16 x))"
    by (auto simp: r)
  have 3: "16 \<le> n \<and> n \<le> 100 \<longrightarrow>
             r = Inr (buf_write bus_key 0 (drop (n - 16) (mpi_bytes x)))"
    by (simp add: r)
  have 4: "n < 16 \<longleftrightarrow> x < 2 ^ 120"
    unfolding n_def by (rule length_mpi_bytes_less_16)
  show ?thesis
    using 1 2 3 4 unfolding r_def n_def x_def by (intro conjI)
qed

theorem crypto_create_bus_key_bounds_witness:
  "length (mpi_bytes (bus_key_q_x reference_ec priv_key_1 small_point_2)) < 16 \<and>
   crypto_create_bus_key reference_ec priv_key_1 small_point_2 zero_block =
     Inl (Out_of_bounds (- 15)) \<and>
   16 \<le> length (mpi_bytes (bus_key_q_x reference_ec priv_key_1 test_point)) \<and>
   length (mpi_bytes (bus_key_q_x reference_ec priv_key_1 test_point)) \<le> 100 \<and>
   crypto_create_bus_key reference_ec priv_key_1 test_point zero_block =
     Inr [0x57, 0x83, 0x51, 0xE6, 0xF4, 0xCC, 0xA7, 0xEB,
           0x81, 0xD0, 0xA4, 0xBD, 0xC5, 0x4C, 0xCE, 0xC6]"
proof -
  have a: "length (mpi_bytes (bus_key_q_x reference_ec priv_key_1 small_point_2)) < 16"
    by (simp add: bus_key_q_x_small_point_2 mpi_bytes_2)
  have b: "16 \<le> length (mpi_bytes (bus_key_q_x reference_ec priv_key_1 test_point)) \<and>
           length (mpi_bytes (bus_key_q_x reference_ec priv_key_1 test_point)) \<le> 100"
    unfolding bus_key_q_x_test_point mpi_bytes_AACS_EC_G_x by (simp add: test_point_def)
  have c: "buf_write zero_block 0
             (drop (length (mpi_bytes (bus_key_q_x reference_ec priv_key_1 test_point)) - 16)
                (mpi_bytes (bus_key_q_x reference_ec priv_key_1 test_point))) =
           [0x57, 0x83, 0x51, 0xE6, 0xF4, 0xCC, 0xA7, 0xEB,
           0x81, 0xD0, 0xA4, 0xBD, 0xC5, 0x4C, 0xCE, 0xC6]"
    unfolding bus_key_q_x_test_point mpi_bytes_AACS_EC_G_x
    by (simp add: test_point_def buf_write_def zero_block_def)
  have d: "int (length (mpi_bytes (bus_key_q_x reference_ec priv_key_1 small_point_2))) - 16
           = - 15"
    by (simp add: bus_key_q_x_small_point_2 mpi_bytes_2)
  show ?thesis
    using crypto_create_bus_key_bounds [of reference_ec priv_key_1 small_point_2 zero_block]
      crypto_create_bus_key_bounds [of reference_ec priv_key_1 test_point zero_block] a b c d
    by simp
qed

text \<open>
  Claim C2 at a failing input: the private key 1 and the point of the curve with
  \<open>x = 1\<close>.  The product is the point itself, its x-coordinate is 1 and encodes in one
  byte, and the 16 bytes are read at offset \<open>-15\<close>, before the buffer, where the claim
  has fifteen zero bytes and the byte 1.
\<close>

theorem crypto_create_bus_key_short_x:
  "bus_key_q_x reference_ec priv_key_1 small_point_1 = 1 \<and>
   mpi_bytes (bus_key_q_x reference_ec priv_key_1 small_point_1) = [1] \<and>
   crypto_create_bus_key reference_ec priv_key_1 small_point_1 zero_block =
     Inl (Out_of_bounds (- 15)) \<and>
   (0x3C3E82AA9DE89A16212B37DA110094BB6C0B740A * 0x3C3E82AA9DE89A16212B37DA110094BB6C0B740A)
     mod AACS_EC_p = (1 * 1 * 1 + AACS_EC_a * 1 + AACS_EC_b) mod AACS_EC_p"
  using small_point_1_on_curve
  by (simp add: crypto_create_bus_key_eq Let_def bus_key_q_x_small_point_1 mpi_bytes_1
      del: One_nat_def)

text \<open>
  Claim C1 at a failing input: the random bytes that encode the scalar 69.  The
  y-coordinate of 69 times the base point is below \<open>2\<^sup>1\<^sup>5\<^sup>2\<close>, so its shortest
  encoding has 19 bytes; \<open>crypto_create_host_key_pair\<close> stores these 19 bytes at offset 20
  and leaves the last byte of the caller's buffer as it was.  The 40 bytes are not the
  encoding of the point, and the y-coordinate read back from them is 256 times too large.
\<close>

theorem crypto_create_host_key_pair_short_y:
  "crypto_create_host_key_pair reference_ec host_key_69 (replicate 20 0) (replicate 40 0)
     = (host_key_69, x_69G_bytes @ y_69G_bytes @ [0]) \<and>
   ec_scalar_mult AACS_EC_p AACS_EC_a (be_value host_key_69) (Some (AACS_EC_G_x, AACS_EC_G_y))
     = Some (x_69G, y_69G) \<and>
   be_bytes 20 x_69G @ be_bytes 20 y_69G = x_69G_bytes @ [0] @ y_69G_bytes \<and>
   x_69G_bytes @ y_69G_bytes @ [0] \<noteq> be_bytes 20 x_69G @ be_bytes 20 y_69G \<and>
   gcry_mpi_scan (drop 20 (x_69G_bytes @ y_69G_bytes @ [0])) 20 = 256 * y_69G"
proof -
  have lx: "length x_69G_bytes = 20" by (simp add: x_69G_bytes_def)
  have ly: "length y_69G_bytes = 19" by (simp add: y_69G_bytes_def)
  have v: "be_value y_69G_bytes = y_69G" by (simp add: y_69G_bytes_def y_69G_def)
  have ne: "y_69G_bytes @ [0] \<noteq> 0 # y_69G_bytes" by (simp add: y_69G_bytes_def)
  have rd: "gcry_mpi_scan (drop 20 (x_69G_bytes @ y_69G_bytes @ [0])) 20 = 256 * y_69G"
    using lx ly v by (simp add: gcry_mpi_scan_def be_value_append)
  show ?thesis
    using host_key_pair_69 scalar_mult_69 ne rd lx
    by (simp add: be_bytes_20_x_69G be_bytes_20_y_69G)
qed

end
